theory Spec2Isabelle
  imports Main "HOL-Library.Char_ord" "HOL-Library.List_Lexorder"
begin

section \<open>Errors\<close>

text \<open>
  Every exception the serializers and the storage layer can raise is a value.
  \<open>ValidationError\<close> is \<open>rest_framework.serializers.ValidationError\<close> (a rejected
  input); \<open>IntegrityError\<close> is the storage layer's constraint violation;
  \<open>MultipleObjectsReturned\<close> is what \<open>get\<close> raises when more than one row matches;
  \<open>ValidationErrors\<close> is the validation error of a whole serializer, the failing fields
  with their codes; \<open>TypeError\<close> and \<open>OverflowError\<close> are the language's own.
\<close>

datatype validation_code =
    InvalidColor
  | InvalidBase64Image
  | FieldRequired
  | FieldNull
  | FieldInvalid
  | NotAList
  | FileNoName
  | FileEmpty
  | InvalidImage

datatype db_constraint =
    BirthYearReasonable
  | UniqueTogether
  | NotNull

datatype error =
    ValidationError validation_code
  | ValidationErrors "(string \<times> validation_code) list"
  | IntegrityError db_constraint
  | MultipleObjectsReturned
  | TypeError
  | OverflowError

section \<open>The color field: \<open>Hex2NameColor\<close>\<close>

text \<open>
  \<open>to_internal_value\<close> calls \<open>webcolors.hex_to_name\<close> and turns its \<open>ValueError\<close>
  into a validation error. The library function first normalises the code
  (\<open>normalize_hex\<close>: the text must be \<open>#\<close> followed by three or six hexadecimal digits,
  matched by a regular expression whose \<open>$\<close> also accepts one trailing newline; three
  digits are doubled; letters are lowered) and then looks the result up in its table of
  names. The table is the parameter \<open>names\<close>.
\<close>

definition is_hex_digit :: "char \<Rightarrow> bool" where
  "is_hex_digit c \<longleftrightarrow>
     (let n = of_char c :: nat in
      (48 \<le> n \<and> n \<le> 57) \<or> (65 \<le> n \<and> n \<le> 70) \<or> (97 \<le> n \<and> n \<le> 102))"

definition lower_char :: "char \<Rightarrow> char" where
  "lower_char c =
     (let n = of_char c :: nat in if 65 \<le> n \<and> n \<le> 90 then char_of (n + 32) else c)"

definition strip_final_newline :: "string \<Rightarrow> string" where
  "strip_final_newline s =
     (if s \<noteq> [] \<and> last s = CHR 0x0A then butlast s else s)"

definition normalize_hex :: "string \<Rightarrow> string option" where
  "normalize_hex hex_value =
     (case strip_final_newline hex_value of
        [] \<Rightarrow> None
      | c # hex_digits \<Rightarrow>
          if c = CHR ''#'' \<and> list_all is_hex_digit hex_digits
             \<and> (length hex_digits = 3 \<or> length hex_digits = 6)
          then Some (CHR ''#'' #
                 map lower_char
                   (if length hex_digits = 3
                    then concat (map (\<lambda>s. [s, s]) hex_digits)
                    else hex_digits))
          else None)"

definition hex_to_name :: "(string \<rightharpoonup> string) \<Rightarrow> string \<Rightarrow> string option" where
  "hex_to_name names hex_value =
     (case normalize_hex hex_value of
        None \<Rightarrow> None
      | Some normalized \<Rightarrow> names normalized)"

definition Hex2NameColor_to_representation :: "string \<Rightarrow> string" where
  "Hex2NameColor_to_representation v = v"

definition Hex2NameColor_to_internal_value ::
    "(string \<rightharpoonup> string) \<Rightarrow> string \<Rightarrow> error + string" where
  "Hex2NameColor_to_internal_value names data =
     (case hex_to_name names data of
        None \<Rightarrow> Inl (ValidationError InvalidColor)
      | Some name \<Rightarrow> Inr name)"

section \<open>Payload values and files\<close>

text \<open>
  A value of an API payload, as the parser hands it to a serializer field: null, text,
  an integer, an uploaded file, a list or an object. A file (an uploaded file, or the
  \<open>ContentFile\<close> the image field builds) is a name and its bytes.
\<close>

type_synonym byte = nat

record content_file =
  file_name :: string
  file_content :: "byte list"

datatype payload_value =
    PNull
  | PStr string
  | PInt int
  | PFile content_file
  | PList "payload_value list"
  | PObj "(string \<times> payload_value) list"

section \<open>The image field: \<open>Base64ImageField\<close>\<close>

subsection \<open>The string operations of the source\<close>

definition startswith :: "string \<Rightarrow> string \<Rightarrow> bool" where
  "startswith s p \<longleftrightarrow> take (length p) s = p"

text \<open>
  \<open>s.split(sep)\<close>: the pieces of \<open>s\<close> between the occurrences of \<open>sep\<close>, found from
  the left without overlap; the result is never empty. The source only splits on the
  two constants \<open>;base64,\<close> and \<open>/\<close> (an empty separator, which the language rejects,
  splits nothing here).
\<close>

function split_str :: "string \<Rightarrow> string \<Rightarrow> string list" where
  "split_str sep s =
     (if s = [] \<or> sep = [] then [s]
      else if take (length sep) s = sep then [] # split_str sep (drop (length sep) s)
      else (case split_str sep (tl s) of
              [] \<Rightarrow> [[hd s]]
            | p # ps \<Rightarrow> (hd s # p) # ps))"
  by pat_completeness auto
termination
  by (relation "measure (\<lambda>(sep, s). length s)") auto

declare split_str.simps [simp del]

subsection \<open>\<open>base64.b64decode\<close>\<close>

text \<open>
  What can go wrong inside the \<open>try\<close> block: the unpacking of the split into two names
  (\<open>ValueError\<close>, too few or too many pieces), a text with a character beyond ASCII
  (\<open>ValueError\<close>), and the two errors of the decoder (\<open>binascii.Error\<close>).
\<close>

datatype decode_exception =
    NotEnoughValues
  | TooManyValues
  | NonAsciiString
  | InvalidLength
  | IncorrectPadding

definition table_a2b_base64 :: "char \<Rightarrow> nat option" where
  "table_a2b_base64 c =
     (let n = of_char c :: nat in
      if 65 \<le> n \<and> n \<le> 90 then Some (n - 65)
      else if 97 \<le> n \<and> n \<le> 122 then Some (n - 71)
      else if 48 \<le> n \<and> n \<le> 57 then Some (n + 4)
      else if c = CHR ''+'' then Some 62
      else if c = CHR ''/'' then Some 63
      else None)"

definition emit :: "byte \<Rightarrow> decode_exception + byte list \<Rightarrow> decode_exception + byte list" where
  "emit b r = (case r of Inl e \<Rightarrow> Inl e | Inr bs \<Rightarrow> Inr (b # bs))"

text \<open>
  The decoder of the standard library in its lenient mode (\<open>validate=False\<close>, the
  default the source uses): characters outside the alphabet are skipped, a padding
  character ends the input once the current group of four is complete with it, and an
  incomplete last group is an error. \<open>quad_pos\<close> counts the characters of the current
  group, \<open>leftchar\<close> holds the bits not yet written, \<open>pads\<close> the padding characters seen
  in a row.
\<close>

fun a2b_base64 :: "nat \<Rightarrow> nat \<Rightarrow> nat \<Rightarrow> string \<Rightarrow> decode_exception + byte list" where
  "a2b_base64 quad_pos leftchar pads [] =
     (if quad_pos = 0 then Inr []
      else if quad_pos = 1 then Inl InvalidLength
      else Inl IncorrectPadding)"
| "a2b_base64 quad_pos leftchar pads (c # cs) =
     (if c = CHR ''='' then
        (if 2 \<le> quad_pos \<and> 4 \<le> quad_pos + (pads + 1) then Inr []
         else a2b_base64 quad_pos leftchar (if 2 \<le> quad_pos then pads + 1 else pads) cs)
      else
        (case table_a2b_base64 c of
           None \<Rightarrow> a2b_base64 quad_pos leftchar pads cs
         | Some v \<Rightarrow>
             if quad_pos = 0 then a2b_base64 1 v 0 cs
             else if quad_pos = 1 then
               emit (leftchar * 4 + v div 16) (a2b_base64 2 (v mod 16) 0 cs)
             else if quad_pos = 2 then
               emit (leftchar * 16 + v div 4) (a2b_base64 3 (v mod 4) 0 cs)
             else emit (leftchar * 64 + v) (a2b_base64 0 0 0 cs)))"

definition b64decode :: "string \<Rightarrow> decode_exception + byte list" where
  "b64decode s =
     (if list_all (\<lambda>c. (of_char c :: nat) < 128) s then a2b_base64 0 0 0 s
      else Inl NonAsciiString)"

subsection \<open>The inherited image field\<close>

text \<open>
  \<open>super().to_internal_value\<close> is the framework's \<open>ImageField\<close>: the value must be a
  file (anything else has no name and no size), the file must have a name and must not
  be empty, and its content must be an image. The last check is done by an imaging
  library; it is the parameter \<open>valid_image\<close>. An accepted file is returned as it is.
\<close>

definition ImageField_to_internal_value ::
    "(content_file \<Rightarrow> bool) \<Rightarrow> payload_value \<Rightarrow> error + content_file" where
  "ImageField_to_internal_value valid_image data =
     (case data of
        PFile f \<Rightarrow>
          if file_name f = [] then Inl (ValidationError FileNoName)
          else if file_content f = [] then Inl (ValidationError FileEmpty)
          else if valid_image f then Inr f
          else Inl (ValidationError InvalidImage)
      | _ \<Rightarrow> Inl (ValidationError FieldInvalid))"

subsection \<open>\<open>Base64ImageField.to_internal_value\<close>\<close>

text \<open>
  The log of the module's logger is part of the state: \<open>logger.error\<close> appends a record
  that carries the exception.
\<close>

datatype log_record = LogError decode_exception

text \<open>The body of the \<open>try\<close> block.\<close>

definition decode_data_url :: "string \<Rightarrow> decode_exception + content_file" where
  "decode_data_url data =
     (case split_str '';base64,'' data of
        [format, imgstr] \<Rightarrow>
          (let ext = last (split_str ''/'' format) in
           case b64decode imgstr of
             Inl e \<Rightarrow> Inl e
           | Inr bytes \<Rightarrow> Inr \<lparr>file_name = ''temp.'' @ ext, file_content = bytes\<rparr>)
      | [_] \<Rightarrow> Inl NotEnoughValues
      | _ \<Rightarrow> Inl TooManyValues)"

definition Base64ImageField_to_internal_value ::
    "(content_file \<Rightarrow> bool) \<Rightarrow> log_record list \<Rightarrow> payload_value
       \<Rightarrow> (error + content_file) \<times> log_record list" where
  "Base64ImageField_to_internal_value valid_image log data =
     (case data of
        PStr s \<Rightarrow>
          if startswith s ''data:image'' then
            (case decode_data_url s of
               Inl e \<Rightarrow> (Inl (ValidationError InvalidBase64Image), log @ [LogError e])
             | Inr f \<Rightarrow> (ImageField_to_internal_value valid_image (PFile f), log))
          else (ImageField_to_internal_value valid_image data, log)
      | _ \<Rightarrow> (ImageField_to_internal_value valid_image data, log))"
section \<open>The models and the store\<close>

text \<open>
  The three models of \<open>models.py\<close> as rows, and the store as their three tables. The
  owner of a cat is the key of a user; the users are kept elsewhere. Each table hands
  out its keys from a counter that only grows (\<open>AutoField\<close>), so a key is never given
  twice. \<open>executed\<close> lists the writing statements that took effect, oldest first.

  The image of a cat is a file of the storage. \<open>Upload f\<close> is a file assigned to an
  instance and not saved yet; \<open>Stored dir f\<close> is the file \<open>f\<close> saved in the directory
  \<open>dir\<close> of the storage, which names it after \<open>f\<close>.
\<close>

record achievement =
  ach_id :: nat
  ach_name :: string

datatype image_ref =
    Upload content_file
  | Stored string content_file

record cat =
  cat_id :: nat
  cat_name :: string
  cat_color :: string
  cat_birth_year :: int
  cat_owner :: nat
  cat_image :: "image_ref option"

record achievementcat =
  ac_id :: nat
  ac_achievement :: nat
  ac_cat :: nat

datatype statement =
    InsertCat nat
  | UpdateCat nat
  | InsertAchievement nat
  | InsertAchievementCat nat nat
  | DeleteAchievementCat nat

record db =
  cat_rows :: "cat list"
  achievement_rows :: "achievement list"
  achievementcat_rows :: "achievementcat list"
  cat_seq :: nat
  achievement_seq :: nat
  achievementcat_seq :: nat
  executed :: "statement list"

definition empty_db :: db where
  "empty_db =
     \<lparr>cat_rows = [], achievement_rows = [], achievementcat_rows = [],
      cat_seq = 0, achievement_seq = 0, achievementcat_seq = 0, executed = []\<rparr>"

text \<open>\<open>upload_to\<close> of the image field, and what saving does to the image of an instance.\<close>

definition upload_to :: string where
  "upload_to = ''cats/images/''"

definition pre_save :: "image_ref option \<Rightarrow> image_ref option" where
  "pre_save i = (case i of Some (Upload f) \<Rightarrow> Some (Stored upload_to f) | _ \<Rightarrow> i)"

text \<open>
  An integer column holds 64 bits with a sign; binding a larger number to a statement
  raises \<open>OverflowError\<close> before the statement runs.
\<close>

definition fits_integer_column :: "int \<Rightarrow> bool" where
  "fits_integer_column y \<longleftrightarrow> - (2 ^ 63) \<le> y \<and> y < 2 ^ 63"

text \<open>The check constraint \<open>birth_year_reasonable\<close> of \<open>Cat.Meta\<close>.\<close>

definition birth_year_reasonable :: "int \<Rightarrow> bool" where
  "birth_year_reasonable y \<longleftrightarrow> 1900 < y \<and> y < 2100"

subsection \<open>Validated data\<close>

text \<open>
  The dictionary \<open>validated_data\<close>: every key may be absent. \<open>vd_image\<close> is absent,
  null or a file. \<open>vd_owner\<close> is the key the serving context adds when it saves. An
  achievement descriptor is the dictionary the nested serializer validated: its only key
  is \<open>name\<close>.
\<close>

record achievement_data =
  ad_name :: "string option"

record validated_data =
  vd_name :: "string option"
  vd_color :: "string option"
  vd_birth_year :: "int option"
  vd_image :: "content_file option option"
  vd_owner :: "nat option"
  vd_achievements :: "achievement_data list option"

subsection \<open>The manager calls\<close>

text \<open>
  \<open>Cat.objects.create(**validated_data)\<close>: an absent text field is the empty text, an
  absent image is null, a given image is saved under \<open>upload_to\<close>; the birth year must
  fit the column; the owner and the birth year have no default and must not be null;
  the check constraint must hold. A statement that fails leaves the store as it was.
\<close>

definition Cat_objects_create :: "db \<Rightarrow> validated_data \<Rightarrow> (error + cat) \<times> db" where
  "Cat_objects_create d kwargs =
     (case vd_birth_year kwargs of
        None \<Rightarrow> (Inl (IntegrityError NotNull), d)
      | Some y \<Rightarrow>
          if \<not> fits_integer_column y then (Inl OverflowError, d)
          else
            (case vd_owner kwargs of
               None \<Rightarrow> (Inl (IntegrityError NotNull), d)
             | Some u \<Rightarrow>
                 if birth_year_reasonable y then
                   (let c = \<lparr>cat_id = Suc (cat_seq d),
                             cat_name = (case vd_name kwargs of None \<Rightarrow> [] | Some n \<Rightarrow> n),
                             cat_color = (case vd_color kwargs of None \<Rightarrow> [] | Some n \<Rightarrow> n),
                             cat_birth_year = y,
                             cat_owner = u,
                             cat_image =
                               (case vd_image kwargs of
                                  None \<Rightarrow> None
                                | Some None \<Rightarrow> None
                                | Some (Some f) \<Rightarrow> pre_save (Some (Upload f)))\<rparr>
                    in (Inr c, d\<lparr>cat_rows := cat_rows d @ [c],
                                cat_seq := Suc (cat_seq d),
                                executed := executed d @ [InsertCat (cat_id c)]\<rparr>))
                 else (Inl (IntegrityError BirthYearReasonable), d)))"

text \<open>
  \<open>instance.save()\<close>: a new image is saved under \<open>upload_to\<close>; the row with the key of
  the instance is replaced; when there is none, the instance is inserted with its key,
  and the counter moves up to it. The birth year must fit the column and the check
  constraint must hold. The saved instance is returned.
\<close>

definition Cat_save :: "db \<Rightarrow> cat \<Rightarrow> (error + cat) \<times> db" where
  "Cat_save d c =
     (let c' = c\<lparr>cat_image := pre_save (cat_image c)\<rparr> in
      if \<not> fits_integer_column (cat_birth_year c) then (Inl OverflowError, d)
      else if \<not> birth_year_reasonable (cat_birth_year c)
      then (Inl (IntegrityError BirthYearReasonable), d)
      else if cat_id c \<in> set (map cat_id (cat_rows d))
      then (Inr c', d\<lparr>cat_rows := map (\<lambda>r. if cat_id r = cat_id c then c' else r) (cat_rows d),
                       executed := executed d @ [UpdateCat (cat_id c)]\<rparr>)
      else (Inr c', d\<lparr>cat_rows := cat_rows d @ [c'],
                       cat_seq := max (cat_seq d) (cat_id c),
                       executed := executed d @ [InsertCat (cat_id c)]\<rparr>))"

text \<open>
  \<open>Achievement.objects.get_or_create(**achievement_data)\<close>: the rows that agree with
  every key of the descriptor are looked up; one row is returned, none makes a new row,
  more than one raises. The flag tells whether the row is new.
\<close>

definition matches :: "achievement_data \<Rightarrow> achievement \<Rightarrow> bool" where
  "matches data a \<longleftrightarrow> (case ad_name data of None \<Rightarrow> True | Some n \<Rightarrow> ach_name a = n)"

definition Achievement_objects_get_or_create ::
    "db \<Rightarrow> achievement_data \<Rightarrow> (error + achievement \<times> bool) \<times> db" where
  "Achievement_objects_get_or_create d data =
     (case filter (matches data) (achievement_rows d) of
        [] \<Rightarrow>
          (let a = \<lparr>ach_id = Suc (achievement_seq d),
                    ach_name = (case ad_name data of None \<Rightarrow> [] | Some n \<Rightarrow> n)\<rparr>
           in (Inr (a, True), d\<lparr>achievement_rows := achievement_rows d @ [a],
                                 achievement_seq := Suc (achievement_seq d),
                                 executed := executed d @ [InsertAchievement (ach_id a)]\<rparr>))
      | [a] \<Rightarrow> (Inr (a, False), d)
      | _ \<Rightarrow> (Inl MultipleObjectsReturned, d))"

text \<open>
  \<open>AchievementCat.objects.create(achievement=..., cat=...)\<close>: \<open>unique_together\<close> refuses a
  second row for the same pair.
\<close>

definition AchievementCat_objects_create ::
    "db \<Rightarrow> achievement \<Rightarrow> cat \<Rightarrow> (error + achievementcat) \<times> db" where
  "AchievementCat_objects_create d a c =
     (if \<exists>j \<in> set (achievementcat_rows d). ac_achievement j = ach_id a \<and> ac_cat j = cat_id c
      then (Inl (IntegrityError UniqueTogether), d)
      else
        (let j = \<lparr>ac_id = Suc (achievementcat_seq d),
                  ac_achievement = ach_id a, ac_cat = cat_id c\<rparr>
         in (Inr j, d\<lparr>achievementcat_rows := achievementcat_rows d @ [j],
                      achievementcat_seq := Suc (achievementcat_seq d),
                      executed := executed d @ [InsertAchievementCat (ach_id a) (cat_id c)]\<rparr>)))"

text \<open>\<open>instance.achievements.clear()\<close>: every join row of the cat is deleted.\<close>

definition achievements_clear :: "db \<Rightarrow> cat \<Rightarrow> db" where
  "achievements_clear d c =
     d\<lparr>achievementcat_rows := filter (\<lambda>j. ac_cat j \<noteq> cat_id c) (achievementcat_rows d),
       executed := executed d @ [DeleteAchievementCat (cat_id c)]\<rparr>"

text \<open>
  \<open>instance.achievements.all()\<close>: the achievements joined to the cat, in the order of
  \<open>Achievement.Meta.ordering\<close> (by name).
\<close>

definition achievements_all :: "db \<Rightarrow> cat \<Rightarrow> achievement list" where
  "achievements_all d c =
     sort_key ach_name
       (concat (map (\<lambda>j. filter (\<lambda>a. ach_id a = ac_achievement j) (achievement_rows d))
                    (filter (\<lambda>j. ac_cat j = cat_id c) (achievementcat_rows d))))"

section \<open>\<open>CatSerializer\<close>\<close>

subsection \<open>\<open>create\<close> and \<open>update\<close>\<close>

text \<open>
  The loop over the descriptors is the same in \<open>create\<close> and in \<open>update\<close>. An exception
  ends it; what the earlier rounds wrote stays written.
\<close>

fun attach_achievements :: "db \<Rightarrow> cat \<Rightarrow> achievement_data list \<Rightarrow> (error + unit) \<times> db" where
  "attach_achievements d c [] = (Inr (), d)"
| "attach_achievements d c (achievement_data # rest) =
     (case Achievement_objects_get_or_create d achievement_data of
        (Inl e, d1) \<Rightarrow> (Inl e, d1)
      | (Inr (a, _), d1) \<Rightarrow>
          (case AchievementCat_objects_create d1 a c of
             (Inl e, d2) \<Rightarrow> (Inl e, d2)
           | (Inr _, d2) \<Rightarrow> attach_achievements d2 c rest))"

definition create :: "db \<Rightarrow> validated_data \<Rightarrow> (error + cat) \<times> db" where
  "create d validated_data =
     (let achievements = (case vd_achievements validated_data of None \<Rightarrow> [] | Some l \<Rightarrow> l) in
      case Cat_objects_create d validated_data of
        (Inl e, d1) \<Rightarrow> (Inl e, d1)
      | (Inr c, d1) \<Rightarrow>
          (case attach_achievements d1 c achievements of
             (Inl e, d2) \<Rightarrow> (Inl e, d2)
           | (Inr _, d2) \<Rightarrow> (Inr c, d2)))"

text \<open>The four assignments of \<open>update\<close>: \<open>validated_data.get(key, instance.key)\<close>.\<close>

definition assign_fields :: "cat \<Rightarrow> validated_data \<Rightarrow> cat" where
  "assign_fields inst validated_data =
     inst\<lparr>cat_name := (case vd_name validated_data of None \<Rightarrow> cat_name inst | Some v \<Rightarrow> v),
          cat_color := (case vd_color validated_data of None \<Rightarrow> cat_color inst | Some v \<Rightarrow> v),
          cat_birth_year :=
            (case vd_birth_year validated_data of None \<Rightarrow> cat_birth_year inst | Some v \<Rightarrow> v),
          cat_image :=
            (case vd_image validated_data of
               None \<Rightarrow> cat_image inst
             | Some None \<Rightarrow> None
             | Some (Some f) \<Rightarrow> Some (Upload f))\<rparr>"

definition update :: "db \<Rightarrow> cat \<Rightarrow> validated_data \<Rightarrow> (error + cat) \<times> db" where
  "update d inst validated_data =
     (let achievements_data = vd_achievements validated_data;
          assigned = assign_fields inst validated_data in
      case Cat_save d assigned of
        (Inl e, d1) \<Rightarrow> (Inl e, d1)
      | (Inr inst', d1) \<Rightarrow>
          (case achievements_data of
             None \<Rightarrow> (Inr inst', d1)
           | Some l \<Rightarrow>
               (case attach_achievements (achievements_clear d1 inst') inst' l of
                  (Inl e, d2) \<Rightarrow> (Inl e, d2)
                | (Inr _, d2) \<Rightarrow> (Inr inst', d2))))"
subsection \<open>Reading\<close>

record achievement_repr =
  r_id :: nat
  r_achievement_name :: string

record cat_repr =
  repr_id :: nat
  repr_name :: string
  repr_color :: string
  repr_birth_year :: int
  repr_achievements :: "achievement_repr list"
  repr_owner :: nat
  repr_age :: int
  repr_image :: "image_ref option"

definition AchievementSerializer_to_representation :: "achievement \<Rightarrow> achievement_repr" where
  "AchievementSerializer_to_representation a = \<lparr>r_id = ach_id a, r_achievement_name = ach_name a\<rparr>"

text \<open>\<open>get_age\<close>; the year of \<open>datetime.now()\<close> is the parameter \<open>now_year\<close>.\<close>

definition get_age :: "int \<Rightarrow> cat \<Rightarrow> int" where
  "get_age now_year obj = now_year - cat_birth_year obj"

definition CatSerializer_to_representation :: "int \<Rightarrow> db \<Rightarrow> cat \<Rightarrow> cat_repr" where
  "CatSerializer_to_representation now_year d c =
     \<lparr>repr_id = cat_id c,
      repr_name = cat_name c,
      repr_color = Hex2NameColor_to_representation (cat_color c),
      repr_birth_year = cat_birth_year c,
      repr_achievements = map AchievementSerializer_to_representation (achievements_all d c),
      repr_owner = cat_owner c,
      repr_age = get_age now_year c,
      repr_image = cat_image c\<rparr>"

subsection \<open>Writing: from the payload to \<open>validated_data\<close>\<close>

text \<open>
  \<open>Meta.fields\<close> and \<open>Meta.read_only_fields\<close> as they are declared. The serializer
  validates the fields that are not read-only and looks at no other key of the payload.
\<close>

definition Meta_fields :: "string list" where
  "Meta_fields =
     [''id'', ''name'', ''color'', ''birth_year'', ''achievements'', ''owner'', ''age'', ''image'']"

definition Meta_read_only_fields :: "string list" where
  "Meta_read_only_fields = [''owner'', ''age'', ''id'']"

definition writable_fields :: "string list" where
  "writable_fields = filter (\<lambda>f. f \<notin> set Meta_read_only_fields) Meta_fields"

text \<open>
  The framework's own text and integer fields are parameters: \<open>CharField\<close> takes the
  \<open>max_length\<close> it was built with. They are kept together with the two other
  collaborators, the table of color names and the image check.
\<close>

record collaborators =
  CharField :: "nat option \<Rightarrow> payload_value \<Rightarrow> error + string"
  IntegerField :: "payload_value \<Rightarrow> error + int"
  color_names :: "string \<rightharpoonup> string"
  valid_image :: "content_file \<Rightarrow> bool"

text \<open>
  A field that may not be null. An absent value is an error when the field is required
  and the update is not partial, and is skipped otherwise; \<open>None\<close> is a skipped field.
\<close>

definition run_field ::
    "bool \<Rightarrow> bool \<Rightarrow> (payload_value \<Rightarrow> error + 'a) \<Rightarrow> payload_value option \<Rightarrow> error + 'a option" where
  "run_field partial required to_internal v =
     (case v of
        None \<Rightarrow>
          if partial \<or> \<not> required then Inr None else Inl (ValidationError FieldRequired)
      | Some PNull \<Rightarrow> Inl (ValidationError FieldNull)
      | Some x \<Rightarrow> (case to_internal x of Inl e \<Rightarrow> Inl e | Inr y \<Rightarrow> Inr (Some y)))"

text \<open>The color field is given the text of the payload; the library raises on any other value.\<close>

definition color_field :: "(string \<rightharpoonup> string) \<Rightarrow> payload_value \<Rightarrow> error + string" where
  "color_field names v =
     (case v of PStr s \<Rightarrow> Hex2NameColor_to_internal_value names s | _ \<Rightarrow> Inl TypeError)"

text \<open>
  \<open>AchievementSerializer\<close>: the object's \<open>achievement_name\<close> becomes the key \<open>name\<close>
  (\<open>source='name'\<close>); \<open>id\<close> is read-only. With \<open>many=True\<close> the value must be a list.
\<close>

definition AchievementSerializer_to_internal_value ::
    "collaborators \<Rightarrow> bool \<Rightarrow> payload_value \<Rightarrow> error + achievement_data" where
  "AchievementSerializer_to_internal_value env partial v =
     (case v of
        PObj kvs \<Rightarrow>
          (case run_field partial True (CharField env None) (map_of kvs ''achievement_name'') of
             Inl e \<Rightarrow> Inl e
           | Inr n \<Rightarrow> Inr \<lparr>ad_name = n\<rparr>)
      | _ \<Rightarrow> Inl (ValidationError FieldInvalid))"

fun validate_each :: "('a \<Rightarrow> error + 'b) \<Rightarrow> 'a list \<Rightarrow> error + 'b list" where
  "validate_each f [] = Inr []"
| "validate_each f (x # xs) =
     (case f x of
        Inl e \<Rightarrow> Inl e
      | Inr y \<Rightarrow> (case validate_each f xs of Inl e \<Rightarrow> Inl e | Inr ys \<Rightarrow> Inr (y # ys)))"

definition achievements_field ::
    "collaborators \<Rightarrow> bool \<Rightarrow> payload_value \<Rightarrow> error + achievement_data list" where
  "achievements_field env partial v =
     (case v of
        PList items \<Rightarrow> validate_each (AchievementSerializer_to_internal_value env partial) items
      | _ \<Rightarrow> Inl (ValidationError NotAList))"

text \<open>The image field may be null (\<open>allow_null=True\<close>) and is not required.\<close>

definition image_field ::
    "(content_file \<Rightarrow> bool) \<Rightarrow> log_record list \<Rightarrow> payload_value option
       \<Rightarrow> (error + content_file option option) \<times> log_record list" where
  "image_field check log v =
     (case v of
        None \<Rightarrow> (Inr None, log)
      | Some PNull \<Rightarrow> (Inr (Some None), log)
      | Some x \<Rightarrow>
          (case Base64ImageField_to_internal_value check log x of
             (Inl e, log') \<Rightarrow> (Inl e, log')
           | (Inr f, log') \<Rightarrow> (Inr (Some (Some f)), log')))"

definition field_error :: "string \<Rightarrow> error + 'a \<Rightarrow> (string \<times> validation_code) list" where
  "field_error f r = (case r of Inl (ValidationError c) \<Rightarrow> [(f, c)] | _ \<Rightarrow> [])"

definition field_value :: "error + 'a option \<Rightarrow> 'a option" where
  "field_value r = (case r of Inl _ \<Rightarrow> None | Inr v \<Rightarrow> v)"

text \<open>
  The writable fields are validated in the order of \<open>Meta.fields\<close>; the validation
  errors are collected and raised together, any other exception ends the run at once.
\<close>

definition run_validation ::
    "collaborators \<Rightarrow> bool \<Rightarrow> log_record list \<Rightarrow> (string \<rightharpoonup> payload_value)
       \<Rightarrow> (error + validated_data) \<times> log_record list" where
  "run_validation env partial log payload =
     (let data = payload |` set writable_fields;
          name_r = run_field partial True (CharField env (Some 16)) (data ''name'');
          color_r = run_field partial True (color_field (color_names env)) (data ''color'')
      in if color_r = Inl TypeError then (Inl TypeError, log)
         else
           (let birth_year_r = run_field partial True (IntegerField env) (data ''birth_year'');
                achievements_r =
                  run_field partial False (achievements_field env partial) (data ''achievements'');
                (image_r, log') = image_field (valid_image env) log (data ''image'');
                errors = field_error ''name'' name_r @ field_error ''color'' color_r
                         @ field_error ''birth_year'' birth_year_r
                         @ field_error ''achievements'' achievements_r
                         @ field_error ''image'' image_r
            in if errors = [] then
                 (Inr \<lparr>vd_name = field_value name_r,
                       vd_color = field_value color_r,
                       vd_birth_year = field_value birth_year_r,
                       vd_image = field_value image_r,
                       vd_owner = None,
                       vd_achievements = field_value achievements_r\<rparr>, log')
               else (Inl (ValidationErrors errors), log')))"

text \<open>
  \<open>save(**kwargs)\<close>: the serving context may add the owner to the validated data; without
  an instance the serializer creates, with one it updates.
\<close>

definition save :: "db \<Rightarrow> cat option \<Rightarrow> nat option \<Rightarrow> validated_data \<Rightarrow> (error + cat) \<times> db" where
  "save d inst owner validated_data =
     (let vd = (case owner of None \<Rightarrow> validated_data
                | Some u \<Rightarrow> validated_data\<lparr>vd_owner := Some u\<rparr>)
      in case inst of None \<Rightarrow> create d vd | Some i \<Rightarrow> update d i vd)"

definition is_valid_and_save ::
    "collaborators \<Rightarrow> bool \<Rightarrow> log_record list \<Rightarrow> db \<Rightarrow> cat option \<Rightarrow> nat option
       \<Rightarrow> (string \<rightharpoonup> payload_value) \<Rightarrow> ((error + cat) \<times> db) \<times> log_record list" where
  "is_valid_and_save env partial log d inst owner payload =
     (case run_validation env partial log payload of
        (Inl e, log') \<Rightarrow> ((Inl e, d), log')
      | (Inr vd, log') \<Rightarrow> (save d inst owner vd, log'))"
section \<open>Notions used in the properties\<close>

text \<open>The descriptor \<open>{name: n}\<close>.\<close>

definition descriptor :: "string \<Rightarrow> achievement_data" where
  "descriptor n = \<lparr>ad_name = Some n\<rparr>"

text \<open>The pairs (achievement, cat) of the join table, row by row.\<close>

definition pairs :: "db \<Rightarrow> (nat \<times> nat) list" where
  "pairs d = map (\<lambda>j. (ac_achievement j, ac_cat j)) (achievementcat_rows d)"

text \<open>The join rows of a cat, and the join rows of the other cats.\<close>

definition joins_of :: "db \<Rightarrow> nat \<Rightarrow> achievementcat list" where
  "joins_of d k = filter (\<lambda>j. ac_cat j = k) (achievementcat_rows d)"


text \<open>
  A consistent store: keys are not repeated and were handed out by the counters, no two
  achievements share a name, no pair is joined twice, and every join row belongs to a
  cat of the store.
\<close>

definition consistent :: "db \<Rightarrow> bool" where
  "consistent d \<longleftrightarrow>
     distinct (map cat_id (cat_rows d)) \<and>
     list_all (\<lambda>c. cat_id c \<le> cat_seq d) (cat_rows d) \<and>
     distinct (map ach_id (achievement_rows d)) \<and>
     list_all (\<lambda>a. ach_id a \<le> achievement_seq d) (achievement_rows d) \<and>
     distinct (map ach_name (achievement_rows d)) \<and>
     distinct (pairs d) \<and>
     list_all (\<lambda>j. ac_cat j \<in> set (map cat_id (cat_rows d))) (achievementcat_rows d)"

text \<open>
  The stores this layer can reach from the empty one: after any \<open>create\<close> and any
  \<open>update\<close>, whether it returned or raised.
\<close>

inductive reachable :: "db \<Rightarrow> bool" where
  reachable_empty: "reachable empty_db"
| reachable_create: "reachable d \<Longrightarrow> reachable (snd (create d validated_data))"
| reachable_update: "reachable d \<Longrightarrow> reachable (snd (update d inst validated_data))"

text \<open>The statements that write the cat table, and the one a \<open>save\<close> of a cat executes.\<close>

fun writes_cat :: "statement \<Rightarrow> bool" where
  "writes_cat (InsertCat _) = True"
| "writes_cat (UpdateCat _) = True"
| "writes_cat _ = False"

definition save_statement :: "db \<Rightarrow> cat \<Rightarrow> statement" where
  "save_statement d c =
     (if cat_id c \<in> set (map cat_id (cat_rows d)) then UpdateCat (cat_id c)
      else InsertCat (cat_id c))"


text \<open>Collaborators for the examples: fields that take well-typed values as they are.\<close>

definition plain_CharField :: "nat option \<Rightarrow> payload_value \<Rightarrow> error + string" where
  "plain_CharField max_length v =
     (case v of PStr s \<Rightarrow> Inr s | _ \<Rightarrow> Inl (ValidationError FieldInvalid))"

definition plain_IntegerField :: "payload_value \<Rightarrow> error + int" where
  "plain_IntegerField v =
     (case v of PInt i \<Rightarrow> Inr i | _ \<Rightarrow> Inl (ValidationError FieldInvalid))"

definition example_collaborators :: collaborators where
  "example_collaborators =
     \<lparr>CharField = plain_CharField, IntegerField = plain_IntegerField,
      color_names = [''#ffffff'' \<mapsto> ''white'', ''#000000'' \<mapsto> ''black''],
      valid_image = top\<rparr>"

text \<open>Validated data for the examples: a cat born in 2015, owned by user 1.\<close>

definition example_data :: validated_data where
  "example_data =
     \<lparr>vd_name = Some ''Tom'', vd_color = Some ''white'', vd_birth_year = Some 2015,
      vd_image = None, vd_owner = Some 1, vd_achievements = None\<rparr>"

text \<open>The cat and the store after creating that cat with the achievement \<open>Climber\<close>.\<close>

definition example_cat :: cat where
  "example_cat =
     \<lparr>cat_id = 1, cat_name = ''Tom'', cat_color = ''white'', cat_birth_year = 2015,
      cat_owner = 1, cat_image = None\<rparr>"

definition example_store :: db where
  "example_store =
     \<lparr>cat_rows = [example_cat],
      achievement_rows = [\<lparr>ach_id = 1, ach_name = ''Climber''\<rparr>],
      achievementcat_rows = [\<lparr>ac_id = 1, ac_achievement = 1, ac_cat = 1\<rparr>],
      cat_seq = 1, achievement_seq = 1, achievementcat_seq = 1,
      executed = [InsertCat 1, InsertAchievement 1, InsertAchievementCat 1 1]\<rparr>"

text \<open>A write payload for the examples.\<close>

definition example_payload :: "string \<rightharpoonup> payload_value" where
  "example_payload =
     [''name'' \<mapsto> PStr ''Tom'', ''color'' \<mapsto> PStr ''#fff'', ''birth_year'' \<mapsto> PInt 2015]"

section \<open>Properties\<close>

subsection \<open>Keys and lookups\<close>

lemma filter_distinct_key:
  "distinct (map f xs) \<Longrightarrow> x \<in> set xs \<Longrightarrow> filter (\<lambda>y. f y = f x) xs = [x]"
proof (induction xs)
  case Nil
  then show ?case by simp
next
  case (Cons a xs)
  show ?case
  proof (cases "a = x")
    case True
    from Cons.prems have "f a \<notin> f ` set xs" by simp
    with True have "\<forall>y\<in>set xs. f y \<noteq> f x" by (metis imageI)
    then have "filter (\<lambda>y. f y = f x) xs = []" by (simp add: filter_empty_conv)
    with True show ?thesis by simp
  next
    case False
    with Cons.prems have "x \<in> set xs" "f a \<noteq> f x" by auto
    with Cons show ?thesis by simp
  qed
qed

lemma matches_descriptor: "matches (descriptor n) = (\<lambda>a. ach_name a = n)"
  by (rule ext) (simp add: matches_def descriptor_def)

lemma get_or_create_found:
  assumes "distinct (map ach_name (achievement_rows d))" "a \<in> set (achievement_rows d)"
  shows "Achievement_objects_get_or_create d (descriptor (ach_name a)) = (Inr (a, False), d)"
proof -
  have "filter (matches (descriptor (ach_name a))) (achievement_rows d)
      = filter (\<lambda>y. ach_name y = ach_name a) (achievement_rows d)"
    by (simp add: matches_descriptor)
  also have "\<dots> = [a]" using assms by (rule filter_distinct_key)
  finally show ?thesis by (simp add: Achievement_objects_get_or_create_def)
qed

lemma get_or_create_new:
  assumes "n \<notin> set (map ach_name (achievement_rows d))"
  shows "Achievement_objects_get_or_create d (descriptor n) =
     (Inr (\<lparr>ach_id = Suc (achievement_seq d), ach_name = n\<rparr>, True),
      d\<lparr>achievement_rows := achievement_rows d
           @ [\<lparr>ach_id = Suc (achievement_seq d), ach_name = n\<rparr>],
        achievement_seq := Suc (achievement_seq d),
        executed := executed d @ [InsertAchievement (Suc (achievement_seq d))]\<rparr>)"
proof -
  have "filter (matches (descriptor n)) (achievement_rows d) = []"
    using assms by (auto simp: matches_descriptor filter_empty_conv)
  then show ?thesis
    by (simp add: Achievement_objects_get_or_create_def Let_def descriptor_def)
qed

lemma AchievementCat_create_new:
  assumes "(ach_id a, cat_id c) \<notin> set (pairs d)"
  shows "AchievementCat_objects_create d a c =
     (Inr \<lparr>ac_id = Suc (achievementcat_seq d), ac_achievement = ach_id a, ac_cat = cat_id c\<rparr>,
      d\<lparr>achievementcat_rows := achievementcat_rows d
           @ [\<lparr>ac_id = Suc (achievementcat_seq d), ac_achievement = ach_id a,
               ac_cat = cat_id c\<rparr>],
        achievementcat_seq := Suc (achievementcat_seq d),
        executed := executed d @ [InsertAchievementCat (ach_id a) (cat_id c)]\<rparr>)"
proof -
  from assms have "\<not> (\<exists>j \<in> set (achievementcat_rows d).
      ac_achievement j = ach_id a \<and> ac_cat j = cat_id c)"
    by (force simp: pairs_def)
  then show ?thesis
    unfolding AchievementCat_objects_create_def Let_def by (rule if_not_P)
qed

lemma AchievementCat_create_dup:
  assumes "(ach_id a, cat_id c) \<in> set (pairs d)"
  shows "AchievementCat_objects_create d a c = (Inl (IntegrityError UniqueTogether), d)"
proof -
  from assms have "\<exists>j \<in> set (achievementcat_rows d).
      ac_achievement j = ach_id a \<and> ac_cat j = cat_id c"
    by (auto simp: pairs_def)
  then show ?thesis
    unfolding AchievementCat_objects_create_def by (rule if_P)
qed

lemma Cat_objects_create_ok:
  assumes "vd_owner vd = Some u" "vd_birth_year vd = Some y" "1900 < y" "y < 2100"
  shows "Cat_objects_create d vd =
     (Inr \<lparr>cat_id = Suc (cat_seq d),
            cat_name = (case vd_name vd of None \<Rightarrow> [] | Some n \<Rightarrow> n),
            cat_color = (case vd_color vd of None \<Rightarrow> [] | Some n \<Rightarrow> n),
            cat_birth_year = y,
            cat_owner = u,
            cat_image = (case vd_image vd of
                           None \<Rightarrow> None
                         | Some None \<Rightarrow> None
                         | Some (Some f) \<Rightarrow> Some (Stored ''cats/images/'' f))\<rparr>,
      d\<lparr>cat_rows := cat_rows d @
           [\<lparr>cat_id = Suc (cat_seq d),
             cat_name = (case vd_name vd of None \<Rightarrow> [] | Some n \<Rightarrow> n),
             cat_color = (case vd_color vd of None \<Rightarrow> [] | Some n \<Rightarrow> n),
             cat_birth_year = y,
             cat_owner = u,
             cat_image = (case vd_image vd of
                            None \<Rightarrow> None
                          | Some None \<Rightarrow> None
                          | Some (Some f) \<Rightarrow> Some (Stored ''cats/images/'' f))\<rparr>],
        cat_seq := Suc (cat_seq d),
        executed := executed d @ [InsertCat (Suc (cat_seq d))]\<rparr>)"
  using assms
  by (simp add: Cat_objects_create_def Let_def fits_integer_column_def
      birth_year_reasonable_def pre_save_def upload_to_def split: option.splits)

lemma Cat_objects_create_refused:
  assumes "vd_owner vd = Some u" "vd_birth_year vd = Some y"
  shows "\<not> (1900 < y \<and> y < 2100) \<Longrightarrow> - (2 ^ 63) \<le> y \<Longrightarrow> y < 2 ^ 63 \<Longrightarrow>
           Cat_objects_create d vd = (Inl (IntegrityError BirthYearReasonable), d)"
    and "y < - (2 ^ 63) \<or> 2 ^ 63 \<le> y \<Longrightarrow> Cat_objects_create d vd = (Inl OverflowError, d)"
  using assms
  by (auto simp: Cat_objects_create_def fits_integer_column_def birth_year_reasonable_def)

lemma Cat_objects_create_ignores_achievements:
  "Cat_objects_create d (vd\<lparr>vd_achievements := l\<rparr>) = Cat_objects_create d vd"
  by (simp add: Cat_objects_create_def Let_def split: option.splits)

lemma Cat_objects_create_failure:
  "Cat_objects_create d vd = (Inl e, d') \<Longrightarrow> d' = d"
  by (auto simp: Cat_objects_create_def Let_def split: option.splits if_splits)

lemma Cat_objects_create_other_tables:
  "achievement_rows (snd (Cat_objects_create d vd)) = achievement_rows d"
  "achievementcat_rows (snd (Cat_objects_create d vd)) = achievementcat_rows d"
  by (auto simp: Cat_objects_create_def Let_def split: option.splits)

lemma create_no_achievements:
  "create d (vd\<lparr>vd_achievements := None\<rparr>) = Cat_objects_create d vd"
  "create d (vd\<lparr>vd_achievements := Some []\<rparr>) = Cat_objects_create d vd"
  by (auto simp: create_def Cat_objects_create_ignores_achievements
      split: prod.splits sum.splits)

subsection \<open>What the manager calls and the loop leave alone\<close>

lemma get_or_create_frame:
  assumes "Achievement_objects_get_or_create d data = (r, d')"
  shows "cat_rows d' = cat_rows d" "achievementcat_rows d' = achievementcat_rows d"
    "cat_seq d' = cat_seq d"
    "\<exists>rest. executed d' = executed d @ rest \<and> list_all (\<lambda>s. \<not> writes_cat s) rest"
  using assms
  by (auto simp: Achievement_objects_get_or_create_def Let_def split: list.splits)

lemma AchievementCat_create_frame:
  assumes "AchievementCat_objects_create d a c = (r, d')"
  shows "cat_rows d' = cat_rows d" "achievement_rows d' = achievement_rows d"
    "cat_seq d' = cat_seq d"
    "\<exists>rest. executed d' = executed d @ rest \<and> list_all (\<lambda>s. \<not> writes_cat s) rest"
  using assms
  by (auto simp: AchievementCat_objects_create_def Let_def split: if_splits)

lemma AchievementCat_create_pairs:
  assumes "AchievementCat_objects_create d a c = (r, d')" "distinct (pairs d)"
  shows "distinct (pairs d')"
proof (cases "(ach_id a, cat_id c) \<in> set (pairs d)")
  case True
  from AchievementCat_create_dup [OF True] assms show ?thesis by simp
next
  case False
  from AchievementCat_create_new [OF False] assms(1)
  have "pairs d' = pairs d @ [(ach_id a, cat_id c)]" by (auto simp: pairs_def)
  with False assms(2) show ?thesis by simp
qed

lemma AchievementCat_create_cats:
  assumes "AchievementCat_objects_create d a c = (r, d')"
    "list_all (\<lambda>j. ac_cat j \<in> K) (achievementcat_rows d)" "cat_id c \<in> K"
  shows "list_all (\<lambda>j. ac_cat j \<in> K) (achievementcat_rows d')"
  using assms
  by (auto simp: AchievementCat_objects_create_def Let_def split: if_splits)

lemma attach_achievements_frame:
  "attach_achievements d c ds = (r, d') \<Longrightarrow>
     cat_rows d' = cat_rows d \<and> cat_seq d' = cat_seq d
     \<and> (\<exists>rest. executed d' = executed d @ rest \<and> list_all (\<lambda>s. \<not> writes_cat s) rest)"
proof (induction ds arbitrary: d)
  case Nil
  then show ?case by simp
next
  case (Cons x ds)
  obtain r1 d1 where g: "Achievement_objects_get_or_create d x = (r1, d1)" by force
  note f1 = get_or_create_frame [OF g]
  show ?case
  proof (cases r1)
    case (Inl e)
    with Cons.prems g have "d' = d1" by simp
    with f1 show ?thesis by simp
  next
    case (Inr p)
    obtain a created where p: "p = (a, created)" by force
    obtain r2 d2 where j: "AchievementCat_objects_create d1 a c = (r2, d2)" by force
    note f2 = AchievementCat_create_frame [OF j]
    from f1(4) f2(4) obtain rest1 rest2 where
      e: "executed d2 = executed d @ rest1 @ rest2"
        "list_all (\<lambda>s. \<not> writes_cat s) (rest1 @ rest2)"
      by auto
    show ?thesis
    proof (cases r2)
      case (Inl e2)
      with Cons.prems g Inr p j have "d' = d2" by simp
      with f1 f2 e show ?thesis by auto
    next
      case (Inr jrow)
      with Cons.prems g \<open>r1 = Inr p\<close> p j have "attach_achievements d2 c ds = (r, d')" by simp
      from Cons.IH [OF this] obtain rest3 where
        "cat_rows d' = cat_rows d2" "cat_seq d' = cat_seq d2"
        "executed d' = executed d2 @ rest3"
        "list_all (\<lambda>s. \<not> writes_cat s) rest3" by auto
      with f1 f2 e have "cat_rows d' = cat_rows d" "cat_seq d' = cat_seq d"
        "executed d' = executed d @ (rest1 @ rest2 @ rest3)"
        "list_all (\<lambda>s. \<not> writes_cat s) (rest1 @ rest2 @ rest3)" by auto
      then show ?thesis by blast
    qed
  qed
qed

lemma attach_achievements_pairs:
  "attach_achievements d c ds = (r, d') \<Longrightarrow> distinct (pairs d) \<Longrightarrow> distinct (pairs d')"
proof (induction ds arbitrary: d)
  case Nil
  then show ?case by simp
next
  case (Cons x ds)
  obtain r1 d1 where g: "Achievement_objects_get_or_create d x = (r1, d1)" by force
  from get_or_create_frame(2) [OF g] Cons.prems(2) have p1: "distinct (pairs d1)"
    by (simp add: pairs_def)
  show ?case
  proof (cases r1)
    case (Inl e)
    with Cons.prems g p1 show ?thesis by simp
  next
    case (Inr p)
    obtain a created where p: "p = (a, created)" by force
    obtain r2 d2 where j: "AchievementCat_objects_create d1 a c = (r2, d2)" by force
    from AchievementCat_create_pairs [OF j p1] have p2: "distinct (pairs d2)" .
    show ?thesis
    proof (cases r2)
      case (Inl e2)
      with Cons.prems g Inr p j p2 show ?thesis by simp
    next
      case (Inr jrow)
      with Cons.prems g \<open>r1 = Inr p\<close> p j have "attach_achievements d2 c ds = (r, d')" by simp
      from Cons.IH [OF this p2] show ?thesis .
    qed
  qed
qed

lemma attach_achievements_cats:
  "attach_achievements d c ds = (r, d') \<Longrightarrow>
     list_all (\<lambda>j. ac_cat j \<in> K) (achievementcat_rows d) \<Longrightarrow> cat_id c \<in> K \<Longrightarrow>
     list_all (\<lambda>j. ac_cat j \<in> K) (achievementcat_rows d')"
proof (induction ds arbitrary: d)
  case Nil
  then show ?case by simp
next
  case (Cons x ds)
  obtain r1 d1 where g: "Achievement_objects_get_or_create d x = (r1, d1)" by force
  from get_or_create_frame(2) [OF g] Cons.prems(2)
  have p1: "list_all (\<lambda>j. ac_cat j \<in> K) (achievementcat_rows d1)" by simp
  show ?case
  proof (cases r1)
    case (Inl e)
    with Cons.prems g p1 show ?thesis by simp
  next
    case (Inr p)
    obtain a created where p: "p = (a, created)" by force
    obtain r2 d2 where j: "AchievementCat_objects_create d1 a c = (r2, d2)" by force
    from AchievementCat_create_cats [OF j p1 Cons.prems(3)]
    have p2: "list_all (\<lambda>j. ac_cat j \<in> K) (achievementcat_rows d2)" .
    show ?thesis
    proof (cases r2)
      case (Inl e2)
      with Cons.prems g Inr p j p2 show ?thesis by simp
    next
      case (Inr jrow)
      with Cons.prems g \<open>r1 = Inr p\<close> p j have "attach_achievements d2 c ds = (r, d')" by simp
      from Cons.IH [OF this p2 Cons.prems(3)] show ?thesis .
    qed
  qed
qed

lemma Cat_objects_create_pairs: "pairs (snd (Cat_objects_create d vd)) = pairs d"
  by (simp add: pairs_def Cat_objects_create_other_tables)

lemma Cat_save_relation:
  "achievementcat_rows (snd (Cat_save d c)) = achievementcat_rows d"
  "achievement_rows (snd (Cat_save d c)) = achievement_rows d"
  by (simp_all add: Cat_save_def Let_def)

lemma achievements_clear_pairs:
  "distinct (pairs d) \<Longrightarrow> distinct (pairs (achievements_clear d c))"
  by (simp add: pairs_def achievements_clear_def distinct_map_filter)

lemma create_pairs: "distinct (pairs d) \<Longrightarrow> distinct (pairs (snd (create d vd)))"
proof -
  assume a: "distinct (pairs d)"
  obtain r1 d1 where c: "Cat_objects_create d vd = (r1, d1)" by force
  with a Cat_objects_create_pairs [of d vd] have p1: "distinct (pairs d1)" by simp
  show ?thesis
  proof (cases r1)
    case (Inl e)
    with c p1 show ?thesis by (simp add: create_def)
  next
    case (Inr cat)
    obtain r2 d2 where t: "attach_achievements d1 cat
        (case vd_achievements vd of None \<Rightarrow> [] | Some l \<Rightarrow> l) = (r2, d2)" by force
    from attach_achievements_pairs [OF t p1] have "distinct (pairs d2)" .
    with c Inr t show ?thesis by (cases r2) (simp_all add: create_def)
  qed
qed

lemma update_pairs: "distinct (pairs d) \<Longrightarrow> distinct (pairs (snd (update d inst vd)))"
proof -
  assume a: "distinct (pairs d)"
  let ?i = "assign_fields inst vd"
  obtain r1 d1 where s: "Cat_save d ?i = (r1, d1)" by force
  with a Cat_save_relation(1) [of d ?i] have p1: "distinct (pairs d1)" by (simp add: pairs_def)
  show ?thesis
  proof (cases r1)
    case (Inl e)
    with s p1 show ?thesis by (simp add: update_def)
  next
    case (Inr saved)
    show ?thesis
    proof (cases "vd_achievements vd")
      case None
      with s Inr p1 show ?thesis by (simp add: update_def)
    next
      case (Some ds)
      obtain r2 d2 where
        t: "attach_achievements (achievements_clear d1 saved) saved ds = (r2, d2)"
        by force
      from attach_achievements_pairs [OF t achievements_clear_pairs [OF p1]]
      have "distinct (pairs d2)" .
      with s Inr Some t show ?thesis by (cases r2) (simp_all add: update_def)
    qed
  qed
qed

lemma reachable_pairs: "reachable d \<Longrightarrow> distinct (pairs d)"
proof (induction rule: reachable.induct)
  case reachable_empty
  show ?case by (simp add: pairs_def empty_db_def)
next
  case (reachable_create d validated_data)
  then show ?case by (simp add: create_pairs)
next
  case (reachable_update d inst validated_data)
  then show ?case by (simp add: update_pairs)
qed

subsection \<open>Saving a cat\<close>

lemma Cat_save_ok:
  assumes "1900 < cat_birth_year c" "cat_birth_year c < 2100"
  shows "Cat_save d c =
     (Inr (c\<lparr>cat_image := pre_save (cat_image c)\<rparr>),
      if cat_id c \<in> set (map cat_id (cat_rows d))
      then d\<lparr>cat_rows := map (\<lambda>r. if cat_id r = cat_id c
                                   then c\<lparr>cat_image := pre_save (cat_image c)\<rparr> else r)
                             (cat_rows d),
             executed := executed d @ [UpdateCat (cat_id c)]\<rparr>
      else d\<lparr>cat_rows := cat_rows d @ [c\<lparr>cat_image := pre_save (cat_image c)\<rparr>],
             cat_seq := max (cat_seq d) (cat_id c),
             executed := executed d @ [InsertCat (cat_id c)]\<rparr>)"
  using assms
  by (simp add: Cat_save_def Let_def fits_integer_column_def birth_year_reasonable_def)

lemma Cat_save_refused:
  "\<not> (1900 < cat_birth_year c \<and> cat_birth_year c < 2100) \<Longrightarrow>
     - (2 ^ 63) \<le> cat_birth_year c \<Longrightarrow> cat_birth_year c < 2 ^ 63 \<Longrightarrow>
     Cat_save d c = (Inl (IntegrityError BirthYearReasonable), d)"
  "cat_birth_year c < - (2 ^ 63) \<or> 2 ^ 63 \<le> cat_birth_year c \<Longrightarrow>
     Cat_save d c = (Inl OverflowError, d)"
  by (auto simp: Cat_save_def Let_def fits_integer_column_def birth_year_reasonable_def)

lemma map_replace_keys:
  "map f (map (\<lambda>r. if f r = f c then c' else r) xs) = map f xs" if "f c' = f c"
  using that by (induction xs) auto

lemma replaced_member:
  "k \<in> set (map f xs) \<Longrightarrow> f c' = k \<Longrightarrow> c' \<in> set (map (\<lambda>r. if f r = k then c' else r) xs)"
  by (induction xs) auto

subsection \<open>The loop over descriptors with names\<close>

lemma attach_descriptors:
  assumes "distinct (map ach_name (achievement_rows d))"
    and "distinct (map ach_id (achievement_rows d))"
    and "list_all (\<lambda>a. ach_id a \<le> achievement_seq d) (achievement_rows d)"
    and "distinct names"
    and "\<forall>j \<in> set (achievementcat_rows d). ac_cat j = cat_id c \<longrightarrow>
           (\<exists>a \<in> set (achievement_rows d). ach_id a = ac_achievement j \<and> ach_name a \<notin> set names)"
  shows "\<exists>d' new newj as.
      attach_achievements d c (map descriptor names) = (Inr (), d')
      \<and> achievement_rows d' = achievement_rows d @ new
      \<and> map ach_name new = filter (\<lambda>n. n \<notin> set (map ach_name (achievement_rows d))) names
      \<and> achievementcat_rows d' = achievementcat_rows d @ newj
      \<and> map (\<lambda>j. (ac_achievement j, ac_cat j)) newj = map (\<lambda>a. (ach_id a, cat_id c)) as
      \<and> map ach_name as = names
      \<and> set as \<subseteq> set (achievement_rows d')
      \<and> distinct (map ach_name (achievement_rows d'))
      \<and> distinct (map ach_id (achievement_rows d'))
      \<and> list_all (\<lambda>a. ach_id a \<le> achievement_seq d') (achievement_rows d')"
  using assms
proof (induction names arbitrary: d)
  case Nil
  then show ?case by simp
next
  case (Cons n names)
  let ?A = "achievement_rows d"
  \<comment> \<open>the achievement of the first descriptor, found or made\<close>
  have "\<exists>a d1 new1.
      Achievement_objects_get_or_create d (descriptor n) = (Inr (a, new1 \<noteq> []), d1)
      \<and> achievement_rows d1 = ?A @ new1
      \<and> map ach_name new1 = filter (\<lambda>m. m \<notin> set (map ach_name ?A)) [n]
      \<and> achievementcat_rows d1 = achievementcat_rows d
      \<and> a \<in> set (achievement_rows d1) \<and> ach_name a = n
      \<and> distinct (map ach_name (achievement_rows d1))
      \<and> distinct (map ach_id (achievement_rows d1))
      \<and> list_all (\<lambda>a. ach_id a \<le> achievement_seq d1) (achievement_rows d1)"
  proof (cases "n \<in> set (map ach_name ?A)")
    case True
    then obtain a where a: "a \<in> set ?A" "ach_name a = n" by auto
    from get_or_create_found [OF Cons.prems(1) a(1)] a(2)
    have "Achievement_objects_get_or_create d (descriptor n) = (Inr (a, False), d)" by simp
    with True a Cons.prems(1,2,3) show ?thesis
      by (intro exI [of _ a] exI [of _ d] exI [of _ "[]"]) simp
  next
    case False
    let ?a = "\<lparr>ach_id = Suc (achievement_seq d), ach_name = n\<rparr>"
    let ?d1 = "d\<lparr>achievement_rows := ?A @ [?a],
        achievement_seq := Suc (achievement_seq d),
        executed := executed d @ [InsertAchievement (Suc (achievement_seq d))]\<rparr>"
    from Cons.prems(3) have fresh: "Suc (achievement_seq d) \<notin> set (map ach_id ?A)"
      by (auto simp: list_all_iff)
    from Cons.prems(3) have "list_all (\<lambda>a. ach_id a \<le> Suc (achievement_seq d)) ?A"
      by (auto simp: list_all_iff)
    with get_or_create_new [OF False] False fresh Cons.prems(1,2) show ?thesis
      by (intro exI [of _ ?a] exI [of _ ?d1] exI [of _ "[?a]"]) simp
  qed
  then obtain a d1 new1 where
    g: "Achievement_objects_get_or_create d (descriptor n) = (Inr (a, new1 \<noteq> []), d1)" and
    rows1: "achievement_rows d1 = ?A @ new1" and
    names1: "map ach_name new1 = filter (\<lambda>m. m \<notin> set (map ach_name ?A)) [n]" and
    joins1: "achievementcat_rows d1 = achievementcat_rows d" and
    a: "a \<in> set (achievement_rows d1)" "ach_name a = n" and
    inv1: "distinct (map ach_name (achievement_rows d1))"
      "distinct (map ach_id (achievement_rows d1))"
      "list_all (\<lambda>a. ach_id a \<le> achievement_seq d1) (achievement_rows d1)"
    by blast
  \<comment> \<open>the pair is not joined yet\<close>
  have nopair: "(ach_id a, cat_id c) \<notin> set (pairs d1)"
  proof
    assume "(ach_id a, cat_id c) \<in> set (pairs d1)"
    then obtain j where j: "j \<in> set (achievementcat_rows d)"
      "ac_achievement j = ach_id a" "ac_cat j = cat_id c"
      using joins1 by (auto simp: pairs_def)
    with Cons.prems(5) obtain b where b: "b \<in> set ?A" "ach_id b = ac_achievement j"
      "ach_name b \<notin> set (n # names)" by blast
    from b(1) rows1 have "b \<in> set (achievement_rows d1)" by simp
    with inv1(2) a(1) b(2) j(2) have "b = a" by (auto simp: distinct_map inj_on_def)
    with b(3) a(2) show False by simp
  qed
  let ?j = "\<lparr>ac_id = Suc (achievementcat_seq d1), ac_achievement = ach_id a,
      ac_cat = cat_id c\<rparr>"
  let ?d2 = "d1\<lparr>achievementcat_rows := achievementcat_rows d1 @ [?j],
      achievementcat_seq := Suc (achievementcat_seq d1),
      executed := executed d1 @ [InsertAchievementCat (ach_id a) (cat_id c)]\<rparr>"
  from AchievementCat_create_new [OF nopair]
  have jc: "AchievementCat_objects_create d1 a c = (Inr ?j, ?d2)" .
  \<comment> \<open>the rest of the loop\<close>
  have pre2: "\<forall>j \<in> set (achievementcat_rows ?d2). ac_cat j = cat_id c \<longrightarrow>
      (\<exists>b \<in> set (achievement_rows ?d2). ach_id b = ac_achievement j \<and> ach_name b \<notin> set names)"
  proof (intro ballI impI)
    fix j assume j: "j \<in> set (achievementcat_rows ?d2)" "ac_cat j = cat_id c"
    show "\<exists>b \<in> set (achievement_rows ?d2). ach_id b = ac_achievement j \<and> ach_name b \<notin> set names"
    proof (cases "j = ?j")
      case True
      with a Cons.prems(4) show ?thesis by (intro bexI [of _ a]) auto
    next
      case False
      with j joins1 have "j \<in> set (achievementcat_rows d)" by simp
      with Cons.prems(5) j(2) obtain b where "b \<in> set ?A" "ach_id b = ac_achievement j"
        "ach_name b \<notin> set (n # names)" by blast
      with rows1 show ?thesis by (intro bexI [of _ b]) auto
    qed
  qed
  from Cons.prems(4) have dn: "distinct names" by simp
  from inv1 have inv2: "distinct (map ach_name (achievement_rows ?d2))"
    "distinct (map ach_id (achievement_rows ?d2))"
    "list_all (\<lambda>a. ach_id a \<le> achievement_seq ?d2) (achievement_rows ?d2)"
    by simp_all
  from Cons.IH [OF inv2 dn pre2] obtain d' new newj as where
    t: "attach_achievements ?d2 c (map descriptor names) = (Inr (), d')" and
    rows': "achievement_rows d' = achievement_rows ?d2 @ new" and
    names': "map ach_name new
        = filter (\<lambda>m. m \<notin> set (map ach_name (achievement_rows ?d2))) names" and
    joins': "achievementcat_rows d' = achievementcat_rows ?d2 @ newj" and
    link': "map (\<lambda>j. (ac_achievement j, ac_cat j)) newj = map (\<lambda>a. (ach_id a, cat_id c)) as" and
    as': "map ach_name as = names" "set as \<subseteq> set (achievement_rows d')" and
    inv': "distinct (map ach_name (achievement_rows d'))"
      "distinct (map ach_id (achievement_rows d'))"
      "list_all (\<lambda>a. ach_id a \<le> achievement_seq d') (achievement_rows d')"
    by blast
  from g jc t have r: "attach_achievements d c (map descriptor (n # names)) = (Inr (), d')"
    by simp
  from Cons.prems(4) have nn: "n \<notin> set names" by simp
  have "filter (\<lambda>m. m \<notin> set (map ach_name (?A @ new1))) names
      = filter (\<lambda>m. m \<notin> set (map ach_name ?A)) names"
  proof (rule filter_cong [OF refl])
    fix m assume "m \<in> set names"
    with nn have "m \<noteq> n" by auto
    with names1 show "(m \<notin> set (map ach_name (?A @ new1))) = (m \<notin> set (map ach_name ?A))"
      by (cases "n \<in> set (map ach_name ?A)") (auto simp: map_eq_Cons_conv)
  qed
  with names' rows1 names1 have names_all: "map ach_name (new1 @ new)
      = filter (\<lambda>m. m \<notin> set (map ach_name ?A)) (n # names)"
    by simp
  from rows' rows1 have rows_all: "achievement_rows d' = ?A @ (new1 @ new)" by simp
  from joins' joins1 have joins_all: "achievementcat_rows d' = achievementcat_rows d @ (?j # newj)"
    by simp
  from link' have link_all: "map (\<lambda>j. (ac_achievement j, ac_cat j)) (?j # newj)
      = map (\<lambda>a. (ach_id a, cat_id c)) (a # as)" by simp
  from as' a rows' have as_all: "map ach_name (a # as) = n # names"
    "set (a # as) \<subseteq> set (achievement_rows d')" by auto
  show ?case
    apply (rule exI [of _ d'], rule exI [of _ "new1 @ new"], rule exI [of _ "?j # newj"],
        rule exI [of _ "a # as"], intro conjI)
    by (rule r rows_all names_all joins_all link_all as_all inv')+
qed

subsection \<open>Reading the achievements of a cat\<close>

lemma joined_achievements:
  assumes "distinct (map ach_id rows)"
  shows "map (\<lambda>j. (ac_achievement j, ac_cat j)) js = map (\<lambda>a. (ach_id a, k)) as \<Longrightarrow>
     set as \<subseteq> set rows \<Longrightarrow>
     concat (map (\<lambda>j. filter (\<lambda>a. ach_id a = ac_achievement j) rows) js) = as"
proof (induction js arbitrary: as)
  case Nil
  then show ?case by simp
next
  case (Cons j js)
  from Cons.prems(1) obtain a as' where as: "as = a # as'"
    "ac_achievement j = ach_id a"
    "map (\<lambda>j. (ac_achievement j, ac_cat j)) js = map (\<lambda>a. (ach_id a, k)) as'"
    by (auto simp: Cons_eq_map_conv)
  with Cons.prems(2) have "a \<in> set rows" "set as' \<subseteq> set rows" by auto
  from filter_distinct_key [OF assms this(1)] as(2)
  have "filter (\<lambda>x. ach_id x = ac_achievement j) rows = [a]" by simp
  with Cons.IH [OF as(3) \<open>set as' \<subseteq> set rows\<close>] as(1) show ?case by simp
qed

lemma map_insort_key: "map f (insort_key f x xs) = insort (f x) (map f xs)"
  by (induction xs) auto

lemma map_sort_key: "map f (sort_key f xs) = sort (map f xs)"
  by (induction xs) (simp_all add: map_insort_key)

lemma joins_only_of:
  "map (\<lambda>j. (ac_achievement j, ac_cat j)) js = map (\<lambda>a. (ach_id a, k)) as \<Longrightarrow>
     filter (\<lambda>j. ac_cat j = k) js = js \<and> filter (\<lambda>j. ac_cat j \<noteq> k) js = []"
proof (induction js arbitrary: as)
  case Nil
  then show ?case by simp
next
  case (Cons j js)
  from Cons.prems obtain a as' where "as = a # as'" "ac_cat j = k"
    "map (\<lambda>j. (ac_achievement j, ac_cat j)) js = map (\<lambda>a. (ach_id a, k)) as'"
    by (auto simp: Cons_eq_map_conv)
  with Cons.IH [of as'] show ?case by simp
qed

lemma achievements_all_attached:
  assumes "joins_of d (cat_id c) = []"
    and "achievementcat_rows d' = achievementcat_rows d @ newj"
    and "map (\<lambda>j. (ac_achievement j, ac_cat j)) newj = map (\<lambda>a. (ach_id a, cat_id c)) as"
    and "set as \<subseteq> set (achievement_rows d')"
    and "distinct (map ach_id (achievement_rows d'))"
  shows "achievements_all d' c = sort_key ach_name as"
    and "map ach_name (achievements_all d' c) = sort (map ach_name as)"
proof -
  from joins_only_of [OF assms(3)] assms(1,2)
  have "filter (\<lambda>j. ac_cat j = cat_id c) (achievementcat_rows d') = newj"
    by (simp add: joins_of_def)
  with joined_achievements [OF assms(5) assms(3) assms(4)]
  show "achievements_all d' c = sort_key ach_name as"
    by (simp add: achievements_all_def)
  then show "map ach_name (achievements_all d' c) = sort (map ach_name as)"
    by (simp add: map_sort_key)
qed

subsection \<open>Creating a cat with named achievements\<close>

lemma create_with_names:
  fixes d :: db and vd :: validated_data
  defines "c \<equiv> \<lparr>cat_id = Suc (cat_seq d),
            cat_name = (case vd_name vd of None \<Rightarrow> [] | Some n \<Rightarrow> n),
            cat_color = (case vd_color vd of None \<Rightarrow> [] | Some n \<Rightarrow> n),
            cat_birth_year = the (vd_birth_year vd),
            cat_owner = the (vd_owner vd),
            cat_image = (case vd_image vd of
                           None \<Rightarrow> None
                         | Some None \<Rightarrow> None
                         | Some (Some f) \<Rightarrow> Some (Stored ''cats/images/'' f))\<rparr>"
  assumes "consistent d"
    and "vd_owner vd = Some u" "vd_birth_year vd = Some y" "1900 < y" "y < 2100"
    and "distinct names"
    and "(case vd_achievements vd of None \<Rightarrow> [] | Some l \<Rightarrow> l) = map descriptor names"
  shows "\<exists>d' new newj as.
      create d vd = (Inr c, d')
      \<and> cat_rows d' = cat_rows d @ [c]
      \<and> achievement_rows d' = achievement_rows d @ new
      \<and> map ach_name new = filter (\<lambda>n. n \<notin> set (map ach_name (achievement_rows d))) names
      \<and> achievementcat_rows d' = achievementcat_rows d @ newj
      \<and> map (\<lambda>j. (ac_achievement j, ac_cat j)) newj = map (\<lambda>a. (ach_id a, cat_id c)) as
      \<and> map ach_name as = names
      \<and> set as \<subseteq> set (achievement_rows d')
      \<and> achievements_all d' c = sort_key ach_name as
      \<and> map ach_name (achievements_all d' c) = sort names
      \<and> cat_seq d' = Suc (cat_seq d)
      \<and> consistent d'"
proof -
  let ?d1 = "d\<lparr>cat_rows := cat_rows d @ [c], cat_seq := Suc (cat_seq d),
      executed := executed d @ [InsertCat (Suc (cat_seq d))]\<rparr>"
  from assms(3-6) have cc: "Cat_objects_create d vd = (Inr c, ?d1)"
    unfolding c_def using Cat_objects_create_ok [of vd u y d] by simp
  from assms(2) have cons:
    "distinct (map cat_id (cat_rows d))"
    "list_all (\<lambda>c. cat_id c \<le> cat_seq d) (cat_rows d)"
    "distinct (map ach_id (achievement_rows d))"
    "list_all (\<lambda>a. ach_id a \<le> achievement_seq d) (achievement_rows d)"
    "distinct (map ach_name (achievement_rows d))"
    "distinct (pairs d)"
    "list_all (\<lambda>j. ac_cat j \<in> set (map cat_id (cat_rows d))) (achievementcat_rows d)"
    by (simp_all add: consistent_def)
  have id: "cat_id c = Suc (cat_seq d)" by (simp add: c_def)
  from cons(2) have fresh: "cat_id c \<notin> set (map cat_id (cat_rows d))"
    by (auto simp: list_all_iff id)
  have nojoin: "\<forall>j \<in> set (achievementcat_rows d). ac_cat j \<noteq> cat_id c"
  proof
    fix j assume "j \<in> set (achievementcat_rows d)"
    with cons(7) have "ac_cat j \<in> set (map cat_id (cat_rows d))" by (simp add: list_all_iff)
    with fresh show "ac_cat j \<noteq> cat_id c" by metis
  qed
  then have nojoin1: "joins_of ?d1 (cat_id c) = []"
    by (simp add: joins_of_def filter_empty_conv)
  from nojoin have pre: "\<forall>j \<in> set (achievementcat_rows ?d1). ac_cat j = cat_id c \<longrightarrow>
      (\<exists>a \<in> set (achievement_rows ?d1). ach_id a = ac_achievement j \<and> ach_name a \<notin> set names)"
    by simp
  from cons have inv1: "distinct (map ach_name (achievement_rows ?d1))"
    "distinct (map ach_id (achievement_rows ?d1))"
    "list_all (\<lambda>a. ach_id a \<le> achievement_seq ?d1) (achievement_rows ?d1)"
    by simp_all
  from attach_descriptors [OF inv1 assms(7) pre] obtain d' new newj as where
    t: "attach_achievements ?d1 c (map descriptor names) = (Inr (), d')" and
    rows: "achievement_rows d' = achievement_rows ?d1 @ new" and
    names: "map ach_name new
        = filter (\<lambda>n. n \<notin> set (map ach_name (achievement_rows ?d1))) names" and
    joins: "achievementcat_rows d' = achievementcat_rows ?d1 @ newj" and
    link: "map (\<lambda>j. (ac_achievement j, ac_cat j)) newj = map (\<lambda>a. (ach_id a, cat_id c)) as" and
    as: "map ach_name as = names" "set as \<subseteq> set (achievement_rows d')" and
    inv': "distinct (map ach_name (achievement_rows d'))"
      "distinct (map ach_id (achievement_rows d'))"
      "list_all (\<lambda>a. ach_id a \<le> achievement_seq d') (achievement_rows d')"
    by blast
  from attach_achievements_frame [OF t]
  have frame: "cat_rows d' = cat_rows ?d1" "cat_seq d' = cat_seq ?d1" by simp_all
  from cc t assms(8) have r: "create d vd = (Inr c, d')" by (simp add: create_def)
  have r1: "cat_rows d' = cat_rows d @ [c]" using frame by simp
  have r2: "achievement_rows d' = achievement_rows d @ new" using rows by simp
  have r3: "map ach_name new = filter (\<lambda>n. n \<notin> set (map ach_name (achievement_rows d))) names"
    using names by simp
  have r4: "achievementcat_rows d' = achievementcat_rows d @ newj" using joins by simp
  from achievements_all_attached [OF nojoin1 joins link as(2) inv'(2)] as(1)
  have r5: "achievements_all d' c = sort_key ach_name as"
    "map ach_name (achievements_all d' c) = sort names" by simp_all
  have r7: "cat_seq d' = Suc (cat_seq d)" using frame by simp
  from cons(6) have "distinct (pairs ?d1)" by (simp add: pairs_def)
  from attach_achievements_pairs [OF t this] have p': "distinct (pairs d')" .
  from cons(7) have "list_all (\<lambda>j. ac_cat j \<in> set (map cat_id (cat_rows ?d1)))
      (achievementcat_rows ?d1)"
    by (auto simp: list_all_iff)
  from attach_achievements_cats [OF t this] frame(1)
  have fk': "list_all (\<lambda>j. ac_cat j \<in> set (map cat_id (cat_rows d'))) (achievementcat_rows d')"
    by simp
  from cons(1,2) fresh frame id have ids': "distinct (map cat_id (cat_rows d'))"
    "list_all (\<lambda>c. cat_id c \<le> cat_seq d') (cat_rows d')"
    by (auto simp: list_all_iff)
  from ids' inv' p' fk' have r6: "consistent d'" by (simp add: consistent_def)
  show ?thesis
    apply (rule exI [of _ d'], rule exI [of _ new], rule exI [of _ newj], rule exI [of _ as],
        intro conjI)
    by (rule r r1 r2 r3 r4 link as r5 r6 r7)+
qed

subsection \<open>Updating a cat\<close>





subsection \<open>A repeated descriptor\<close>



subsection \<open>Every store that is reached is consistent\<close>










lemma consistent_empty: "consistent empty_db"
  by (simp add: consistent_def empty_db_def pairs_def)


subsection \<open>Splitting a data URL\<close>














subsection \<open>Examples\<close>

lemmas evaluation =
  create_def update_def Cat_objects_create_def Cat_save_def
  Achievement_objects_get_or_create_def AchievementCat_objects_create_def
  achievements_clear_def assign_fields_def pre_save_def upload_to_def
  example_data_def example_cat_def example_store_def empty_db_def descriptor_def
  matches_def fits_integer_column_def birth_year_reasonable_def Let_def

lemma create_example:
  "create empty_db (example_data\<lparr>vd_achievements := Some [descriptor ''Climber'']\<rparr>)
     = (Inr example_cat, example_store)"
  by (simp add: evaluation)

lemma reachable_example_store: "reachable example_store"
  using reachable_create [OF reachable_empty,
      of "example_data\<lparr>vd_achievements := Some [descriptor ''Climber'']\<rparr>"]
  by (simp add: create_example)

subsection \<open>Creating without achievements\<close>

text \<open>
  C10. In \<open>create\<close>, leaving the achievements out is the same as giving the empty list.
  With an owner and a birth year between 1900 and 2100, both return the cat made of the
  other fields, under a new key, and the store differs from the old one by that row,
  the key counter and the one statement that inserted it: no achievement and no join
  row is written. When \<open>create\<close> raises, the store is as it was.
\<close>

theorem create_achievements_omitted_or_empty:
  "create d (vd\<lparr>vd_achievements := None\<rparr>) = create d (vd\<lparr>vd_achievements := Some []\<rparr>)
   \<and> (vd_owner vd = Some u \<and> vd_birth_year vd = Some y \<and> 1900 < y \<and> y < 2100 \<longrightarrow>
        create d (vd\<lparr>vd_achievements := None\<rparr>) =
          (Inr \<lparr>cat_id = Suc (cat_seq d),
                 cat_name = (case vd_name vd of None \<Rightarrow> [] | Some n \<Rightarrow> n),
                 cat_color = (case vd_color vd of None \<Rightarrow> [] | Some n \<Rightarrow> n),
                 cat_birth_year = y,
                 cat_owner = u,
                 cat_image = (case vd_image vd of
                                None \<Rightarrow> None
                              | Some None \<Rightarrow> None
                              | Some (Some f) \<Rightarrow> Some (Stored ''cats/images/'' f))\<rparr>,
           d\<lparr>cat_rows := cat_rows d @
                [\<lparr>cat_id = Suc (cat_seq d),
                  cat_name = (case vd_name vd of None \<Rightarrow> [] | Some n \<Rightarrow> n),
                  cat_color = (case vd_color vd of None \<Rightarrow> [] | Some n \<Rightarrow> n),
                  cat_birth_year = y,
                  cat_owner = u,
                  cat_image = (case vd_image vd of
                                 None \<Rightarrow> None
                               | Some None \<Rightarrow> None
                               | Some (Some f) \<Rightarrow> Some (Stored ''cats/images/'' f))\<rparr>],
             cat_seq := Suc (cat_seq d),
             executed := executed d @ [InsertCat (Suc (cat_seq d))]\<rparr>))
   \<and> (fst (create d (vd\<lparr>vd_achievements := None\<rparr>)) = Inl e \<longrightarrow>
        snd (create d (vd\<lparr>vd_achievements := None\<rparr>)) = d)
   \<and> achievement_rows (snd (create d (vd\<lparr>vd_achievements := None\<rparr>))) = achievement_rows d
   \<and> achievementcat_rows (snd (create d (vd\<lparr>vd_achievements := None\<rparr>)))
       = achievementcat_rows d"
proof (intro conjI impI)
  assume "vd_owner vd = Some u \<and> vd_birth_year vd = Some y \<and> 1900 < y \<and> y < 2100"
  then show "create d (vd\<lparr>vd_achievements := None\<rparr>) =
          (Inr \<lparr>cat_id = Suc (cat_seq d),
                 cat_name = (case vd_name vd of None \<Rightarrow> [] | Some n \<Rightarrow> n),
                 cat_color = (case vd_color vd of None \<Rightarrow> [] | Some n \<Rightarrow> n),
                 cat_birth_year = y,
                 cat_owner = u,
                 cat_image = (case vd_image vd of
                                None \<Rightarrow> None
                              | Some None \<Rightarrow> None
                              | Some (Some f) \<Rightarrow> Some (Stored ''cats/images/'' f))\<rparr>,
           d\<lparr>cat_rows := cat_rows d @
                [\<lparr>cat_id = Suc (cat_seq d),
                  cat_name = (case vd_name vd of None \<Rightarrow> [] | Some n \<Rightarrow> n),
                  cat_color = (case vd_color vd of None \<Rightarrow> [] | Some n \<Rightarrow> n),
                  cat_birth_year = y,
                  cat_owner = u,
                  cat_image = (case vd_image vd of
                                 None \<Rightarrow> None
                               | Some None \<Rightarrow> None
                               | Some (Some f) \<Rightarrow> Some (Stored ''cats/images/'' f))\<rparr>],
             cat_seq := Suc (cat_seq d),
             executed := executed d @ [InsertCat (Suc (cat_seq d))]\<rparr>)"
    unfolding create_no_achievements by (intro Cat_objects_create_ok) blast+
next
  assume "fst (create d (vd\<lparr>vd_achievements := None\<rparr>)) = Inl e"
  then have "Cat_objects_create d vd = (Inl e, snd (Cat_objects_create d vd))"
    by (simp add: create_no_achievements prod_eq_iff)
  from Cat_objects_create_failure [OF this]
  show "snd (create d (vd\<lparr>vd_achievements := None\<rparr>)) = d"
    by (simp add: create_no_achievements)
qed (simp_all add: create_no_achievements Cat_objects_create_other_tables)

theorem create_achievements_omitted_or_empty_witness:
  "create empty_db (example_data\<lparr>vd_achievements := None\<rparr>)
     = (Inr example_cat,
        \<lparr>cat_rows = [example_cat], achievement_rows = [], achievementcat_rows = [],
         cat_seq = 1, achievement_seq = 0, achievementcat_seq = 0, executed = [InsertCat 1]\<rparr>)
   \<and> create empty_db (example_data\<lparr>vd_achievements := Some []\<rparr>)
     = (Inr example_cat,
        \<lparr>cat_rows = [example_cat], achievement_rows = [], achievementcat_rows = [],
         cat_seq = 1, achievement_seq = 0, achievementcat_seq = 0, executed = [InsertCat 1]\<rparr>)"
proof -
  note t = create_achievements_omitted_or_empty [of empty_db example_data 1 2015]
  have same: "create empty_db (example_data\<lparr>vd_achievements := None\<rparr>)
      = create empty_db (example_data\<lparr>vd_achievements := Some []\<rparr>)"
    using t by (rule conjunct1)
  have h: "vd_owner example_data = Some 1 \<and> vd_birth_year example_data = Some 2015
      \<and> 1900 < (2015::int) \<and> (2015::int) < 2100"
    by (simp add: example_data_def)
  from t [THEN conjunct2, THEN conjunct1, THEN mp, OF h]
  have "create empty_db (example_data\<lparr>vd_achievements := None\<rparr>)
     = (Inr example_cat,
        \<lparr>cat_rows = [example_cat], achievement_rows = [], achievementcat_rows = [],
         cat_seq = 1, achievement_seq = 0, achievementcat_seq = 0, executed = [InsertCat 1]\<rparr>)"
    by (simp add: example_data_def example_cat_def empty_db_def)
  with same show ?thesis by simp
qed

subsection \<open>The birth year\<close>

text \<open>
  C6. The claim: a cat is created exactly for a birth year strictly between 1900 and
  2100, and a year outside is reported as a validation error. The range is right; the
  report is not: the range is a check constraint of the table, and its violation is an
  integrity error of the store. A cat born in 1800:
\<close>

theorem create_birth_year_1800_counterexample:
  "create empty_db (example_data\<lparr>vd_birth_year := Some 1800\<rparr>)
     = (Inl (IntegrityError BirthYearReasonable), empty_db)"
  by (simp add: evaluation)

text \<open>
  C6, as amended. With an owner given, the insertion of a cat with birth year \<open>y\<close>
  succeeds exactly when \<open>1900 < y < 2100\<close>, and then the row with that year is appended
  to the cat table under a new key. Every other year is refused and the store stays as
  it was: a year that fits the integer column by the check constraint, with an integrity
  error; a year beyond the column with an overflow error. Neither is a validation
  error.
\<close>

theorem cat_creation_birth_year:
  assumes "vd_owner vd = Some u" "vd_birth_year vd = Some y"
  shows "((\<exists>c d'. Cat_objects_create d vd = (Inr c, d')) \<longleftrightarrow> 1900 < y \<and> y < 2100)
     \<and> (1900 < y \<and> y < 2100 \<longrightarrow>
          (\<exists>c. Cat_objects_create d vd =
                 (Inr c, d\<lparr>cat_rows := cat_rows d @ [c], cat_seq := Suc (cat_seq d),
                            executed := executed d @ [InsertCat (Suc (cat_seq d))]\<rparr>)
               \<and> cat_birth_year c = y \<and> cat_owner c = u \<and> cat_id c = Suc (cat_seq d)))
     \<and> (\<not> (1900 < y \<and> y < 2100) \<and> - (2 ^ 63) \<le> y \<and> y < 2 ^ 63 \<longrightarrow>
          create d vd = (Inl (IntegrityError BirthYearReasonable), d))
     \<and> (y < - (2 ^ 63) \<or> 2 ^ 63 \<le> y \<longrightarrow> create d vd = (Inl OverflowError, d))"
proof (intro conjI impI)
  show "(\<exists>c d'. Cat_objects_create d vd = (Inr c, d')) \<longleftrightarrow> 1900 < y \<and> y < 2100"
    using assms
    by (auto simp: Cat_objects_create_def Let_def birth_year_reasonable_def
        fits_integer_column_def)
next
  assume "1900 < y \<and> y < 2100"
  with Cat_objects_create_ok [OF assms, of d]
  show "\<exists>c. Cat_objects_create d vd =
                 (Inr c, d\<lparr>cat_rows := cat_rows d @ [c], cat_seq := Suc (cat_seq d),
                            executed := executed d @ [InsertCat (Suc (cat_seq d))]\<rparr>)
               \<and> cat_birth_year c = y \<and> cat_owner c = u \<and> cat_id c = Suc (cat_seq d)"
    by simp
next
  assume "\<not> (1900 < y \<and> y < 2100) \<and> - (2 ^ 63) \<le> y \<and> y < 2 ^ 63"
  with Cat_objects_create_refused(1) [OF assms, of d]
  show "create d vd = (Inl (IntegrityError BirthYearReasonable), d)"
    by (simp add: create_def)
next
  assume "y < - (2 ^ 63) \<or> 2 ^ 63 \<le> y"
  with Cat_objects_create_refused(2) [OF assms, of d]
  show "create d vd = (Inl OverflowError, d)"
    by (simp add: create_def)
qed

theorem cat_creation_birth_year_witness:
  "Cat_objects_create empty_db example_data
     = (Inr example_cat,
        \<lparr>cat_rows = [example_cat], achievement_rows = [], achievementcat_rows = [],
         cat_seq = 1, achievement_seq = 0, achievementcat_seq = 0, executed = [InsertCat 1]\<rparr>)
   \<and> create empty_db (example_data\<lparr>vd_birth_year := Some 2100\<rparr>)
     = (Inl (IntegrityError BirthYearReasonable), empty_db)
   \<and> create empty_db (example_data\<lparr>vd_birth_year := Some (2 ^ 63)\<rparr>)
     = (Inl OverflowError, empty_db)"
proof -
  have h: "vd_owner example_data = Some 1" "vd_birth_year example_data = Some 2015"
    by (simp_all add: example_data_def)
  from cat_creation_birth_year [OF h, of empty_db]
  obtain c where c: "Cat_objects_create empty_db example_data =
      (Inr c, empty_db\<lparr>cat_rows := cat_rows empty_db @ [c], cat_seq := Suc (cat_seq empty_db),
         executed := executed empty_db @ [InsertCat (Suc (cat_seq empty_db))]\<rparr>)"
    by auto
  moreover have "fst (Cat_objects_create empty_db example_data) = Inr example_cat"
    by (simp add: evaluation)
  ultimately have "c = example_cat" by simp
  with c have 1: "Cat_objects_create empty_db example_data
     = (Inr example_cat,
        \<lparr>cat_rows = [example_cat], achievement_rows = [], achievementcat_rows = [],
         cat_seq = 1, achievement_seq = 0, achievementcat_seq = 0, executed = [InsertCat 1]\<rparr>)"
    by (simp add: empty_db_def)
  have h2: "vd_owner (example_data\<lparr>vd_birth_year := Some 2100\<rparr>) = Some 1"
    "vd_birth_year (example_data\<lparr>vd_birth_year := Some 2100\<rparr>) = Some 2100"
    by (simp_all add: example_data_def)
  from cat_creation_birth_year [OF h2, of empty_db]
  have 2: "create empty_db (example_data\<lparr>vd_birth_year := Some 2100\<rparr>)
     = (Inl (IntegrityError BirthYearReasonable), empty_db)" by simp
  have h3: "vd_owner (example_data\<lparr>vd_birth_year := Some (2 ^ 63)\<rparr>) = Some 1"
    "vd_birth_year (example_data\<lparr>vd_birth_year := Some (2 ^ 63)\<rparr>) = Some (2 ^ 63)"
    by (simp_all add: example_data_def)
  from cat_creation_birth_year [OF h3, of empty_db]
  have 3: "create empty_db (example_data\<lparr>vd_birth_year := Some (2 ^ 63)\<rparr>)
     = (Inl OverflowError, empty_db)" by simp
  from 1 2 3 show ?thesis by simp
qed

subsection \<open>The pairs of the join table\<close>

text \<open>
  C7. A second join row for a pair that is already joined is refused with the
  uniqueness violation, and the store stays as it was; a pair that is not joined yet
  gets its row, under a new key; creating a join row keeps the pairs of the join table
  free of repetitions; and in every store this layer can reach, no pair is joined twice.
\<close>

theorem achievementcat_pair_unique:
  "((ach_id a, cat_id c) \<in> set (pairs d) \<longrightarrow>
      AchievementCat_objects_create d a c = (Inl (IntegrityError UniqueTogether), d))
   \<and> ((ach_id a, cat_id c) \<notin> set (pairs d) \<longrightarrow>
      AchievementCat_objects_create d a c =
        (Inr \<lparr>ac_id = Suc (achievementcat_seq d), ac_achievement = ach_id a,
               ac_cat = cat_id c\<rparr>,
         d\<lparr>achievementcat_rows := achievementcat_rows d
              @ [\<lparr>ac_id = Suc (achievementcat_seq d), ac_achievement = ach_id a,
                  ac_cat = cat_id c\<rparr>],
           achievementcat_seq := Suc (achievementcat_seq d),
           executed := executed d @ [InsertAchievementCat (ach_id a) (cat_id c)]\<rparr>))
   \<and> (distinct (pairs d) \<longrightarrow> distinct (pairs (snd (AchievementCat_objects_create d a c))))
   \<and> (reachable d \<longrightarrow> distinct (pairs d))"
proof (intro conjI impI)
  assume "distinct (pairs d)"
  then show "distinct (pairs (snd (AchievementCat_objects_create d a c)))"
    using AchievementCat_create_pairs [of d a c] by (metis prod.collapse)
qed (simp_all add: AchievementCat_create_dup AchievementCat_create_new reachable_pairs)

theorem achievementcat_pair_unique_witness:
  "AchievementCat_objects_create example_store \<lparr>ach_id = 1, ach_name = ''Climber''\<rparr> example_cat
     = (Inl (IntegrityError UniqueTogether), example_store)
   \<and> AchievementCat_objects_create example_store \<lparr>ach_id = 2, ach_name = ''Hunter''\<rparr> example_cat
     = (Inr \<lparr>ac_id = 2, ac_achievement = 2, ac_cat = 1\<rparr>,
        example_store\<lparr>achievementcat_rows :=
            [\<lparr>ac_id = 1, ac_achievement = 1, ac_cat = 1\<rparr>,
             \<lparr>ac_id = 2, ac_achievement = 2, ac_cat = 1\<rparr>],
          achievementcat_seq := 2,
          executed := [InsertCat 1, InsertAchievement 1, InsertAchievementCat 1 1,
                       InsertAchievementCat 2 1]\<rparr>)
   \<and> reachable example_store
   \<and> pairs example_store = [(1, 1)]
   \<and> distinct (pairs example_store)"
proof -
  have p: "pairs example_store = [(1, 1)]" by (simp add: pairs_def example_store_def)
  have h1: "(ach_id \<lparr>ach_id = 1, ach_name = ''Climber''\<rparr>, cat_id example_cat)
      \<in> set (pairs example_store)"
    by (simp add: p example_cat_def)
  have h2: "(ach_id \<lparr>ach_id = 2, ach_name = ''Hunter''\<rparr>, cat_id example_cat)
      \<notin> set (pairs example_store)"
    by (simp add: p example_cat_def)
  note t1 = achievementcat_pair_unique
    [of "\<lparr>ach_id = 1, ach_name = ''Climber''\<rparr>" example_cat example_store]
  note t2 = achievementcat_pair_unique
    [of "\<lparr>ach_id = 2, ach_name = ''Hunter''\<rparr>" example_cat example_store]
  from t1 [THEN conjunct1, THEN mp, OF h1]
  have 1: "AchievementCat_objects_create example_store
      \<lparr>ach_id = 1, ach_name = ''Climber''\<rparr> example_cat
     = (Inl (IntegrityError UniqueTogether), example_store)" .
  from t2 [THEN conjunct2, THEN conjunct1, THEN mp, OF h2]
  have 2: "AchievementCat_objects_create example_store
      \<lparr>ach_id = 2, ach_name = ''Hunter''\<rparr> example_cat
     = (Inr \<lparr>ac_id = 2, ac_achievement = 2, ac_cat = 1\<rparr>,
        example_store\<lparr>achievementcat_rows :=
            [\<lparr>ac_id = 1, ac_achievement = 1, ac_cat = 1\<rparr>,
             \<lparr>ac_id = 2, ac_achievement = 2, ac_cat = 1\<rparr>],
          achievementcat_seq := 2,
          executed := [InsertCat 1, InsertAchievement 1, InsertAchievementCat 1 1,
                       InsertAchievementCat 2 1]\<rparr>)"
    by (simp add: example_store_def example_cat_def)
  from t1 [THEN conjunct2, THEN conjunct2, THEN conjunct2, THEN mp, OF reachable_example_store]
  have 3: "distinct (pairs example_store)" .
  from 1 2 3 p reachable_example_store show ?thesis by simp
qed

subsection \<open>The order of \<open>update\<close>\<close>

lemma cat_record_eq:
  "c = \<lparr>cat_id = cat_id c, cat_name = cat_name c, cat_color = cat_color c,
        cat_birth_year = cat_birth_year c, cat_owner = cat_owner c, cat_image = cat_image c\<rparr>"
  by (cases c) simp

lemma saved_instance:
  "(assign_fields inst vd)\<lparr>cat_image := pre_save (cat_image (assign_fields inst vd))\<rparr> =
     \<lparr>cat_id = cat_id inst,
      cat_name = (case vd_name vd of None \<Rightarrow> cat_name inst | Some v \<Rightarrow> v),
      cat_color = (case vd_color vd of None \<Rightarrow> cat_color inst | Some v \<Rightarrow> v),
      cat_birth_year = (case vd_birth_year vd of None \<Rightarrow> cat_birth_year inst | Some v \<Rightarrow> v),
      cat_owner = cat_owner inst,
      cat_image = (case vd_image vd of
                     None \<Rightarrow> (case cat_image inst of
                                Some (Upload f) \<Rightarrow> Some (Stored ''cats/images/'' f)
                              | i \<Rightarrow> i)
                   | Some None \<Rightarrow> None
                   | Some (Some f) \<Rightarrow> Some (Stored ''cats/images/'' f))\<rparr>"
  by (subst cat_record_eq [of "(assign_fields inst vd)\<lparr>cat_image := pre_save (cat_image (assign_fields inst vd))\<rparr>"])
     (simp add: assign_fields_def pre_save_def upload_to_def
       split: option.splits image_ref.splits)

lemma update_order:
  assumes "update d inst vd = (r, d')"
  defines "a \<equiv> assign_fields inst vd"
  defines "saved \<equiv> a\<lparr>cat_image := pre_save (cat_image a)\<rparr>"
  shows "if 1900 < cat_birth_year a \<and> cat_birth_year a < 2100
     then cat_rows d' =
            (if cat_id inst \<in> set (map cat_id (cat_rows d))
             then map (\<lambda>row. if cat_id row = cat_id inst then saved else row) (cat_rows d)
             else cat_rows d @ [saved])
        \<and> (\<exists>rest. executed d' = executed d
                 @ (if cat_id inst \<in> set (map cat_id (cat_rows d))
                    then UpdateCat (cat_id inst) else InsertCat (cat_id inst)) # rest
               \<and> list_all (\<lambda>s. \<not> writes_cat s) rest
               \<and> (case vd_achievements vd of
                    None \<Rightarrow> rest = []
                  | Some l \<Rightarrow> rest \<noteq> [] \<and> hd rest = DeleteAchievementCat (cat_id inst)))
        \<and> (case vd_achievements vd of
              None \<Rightarrow> r = Inr saved
            | Some l \<Rightarrow> r = Inr saved \<or> (\<exists>e. r = Inl e))
     else d' = d
        \<and> r = Inl (if - (2 ^ 63) \<le> cat_birth_year a \<and> cat_birth_year a < 2 ^ 63
                   then IntegrityError BirthYearReasonable else OverflowError)"
proof (cases "1900 < cat_birth_year a \<and> cat_birth_year a < 2100")
  case False
  have "d' = d
        \<and> r = Inl (if - (2 ^ 63) \<le> cat_birth_year a \<and> cat_birth_year a < 2 ^ 63
                   then IntegrityError BirthYearReasonable else OverflowError)"
  proof (cases "- (2 ^ 63) \<le> cat_birth_year a \<and> cat_birth_year a < 2 ^ 63")
    case True
    with False Cat_save_refused(1) [of a d] assms(1) show ?thesis
      by (simp add: update_def Let_def a_def)
  next
    case False
    with Cat_save_refused(2) [of a d] assms(1) show ?thesis
      by (auto simp: update_def Let_def a_def)
  qed
  then show ?thesis unfolding if_not_P [OF False] .
next
  case True
  let ?d1 = "if cat_id a \<in> set (map cat_id (cat_rows d))
      then d\<lparr>cat_rows := map (\<lambda>r. if cat_id r = cat_id a then saved else r) (cat_rows d),
             executed := executed d @ [UpdateCat (cat_id a)]\<rparr>
      else d\<lparr>cat_rows := cat_rows d @ [saved],
             cat_seq := max (cat_seq d) (cat_id a),
             executed := executed d @ [InsertCat (cat_id a)]\<rparr>"
  from True Cat_save_ok [of a d] have s: "Cat_save d a = (Inr saved, ?d1)"
    by (simp add: saved_def)
  have id: "cat_id a = cat_id inst" "cat_id saved = cat_id inst"
    by (simp_all add: a_def saved_def assign_fields_def)
  have rows1: "cat_rows ?d1 =
            (if cat_id inst \<in> set (map cat_id (cat_rows d))
             then map (\<lambda>row. if cat_id row = cat_id inst then saved else row) (cat_rows d)
             else cat_rows d @ [saved])"
    by (simp add: id)
  have ex1: "executed ?d1 = executed d
      @ [if cat_id inst \<in> set (map cat_id (cat_rows d))
         then UpdateCat (cat_id inst) else InsertCat (cat_id inst)]"
    by (simp add: id)
  have "cat_rows d' =
            (if cat_id inst \<in> set (map cat_id (cat_rows d))
             then map (\<lambda>row. if cat_id row = cat_id inst then saved else row) (cat_rows d)
             else cat_rows d @ [saved])
        \<and> (\<exists>rest. executed d' = executed d
                 @ (if cat_id inst \<in> set (map cat_id (cat_rows d))
                    then UpdateCat (cat_id inst) else InsertCat (cat_id inst)) # rest
               \<and> list_all (\<lambda>s. \<not> writes_cat s) rest
               \<and> (case vd_achievements vd of
                    None \<Rightarrow> rest = []
                  | Some l \<Rightarrow> rest \<noteq> [] \<and> hd rest = DeleteAchievementCat (cat_id inst)))
        \<and> (case vd_achievements vd of
              None \<Rightarrow> r = Inr saved
            | Some l \<Rightarrow> r = Inr saved \<or> (\<exists>e. r = Inl e))"
  proof (cases "vd_achievements vd")
    case None
    with assms(1) s have "r = Inr saved" "d' = ?d1"
      by (simp_all add: update_def Let_def a_def [symmetric])
    with rows1 ex1 None show ?thesis by simp
  next
    case (Some l)
    obtain r2 d2 where
      t: "attach_achievements (achievements_clear ?d1 saved) saved l = (r2, d2)"
      by force
    from attach_achievements_frame [OF t] obtain rest2 where
      f: "cat_rows d2 = cat_rows ?d1"
        "executed d2 = executed ?d1 @ DeleteAchievementCat (cat_id inst) # rest2"
        "list_all (\<lambda>s. \<not> writes_cat s) rest2"
      by (auto simp: achievements_clear_def id)
    from assms(1) s Some t
    have u: "(r, d') = (case r2 of Inl e \<Rightarrow> (Inl e, d2) | Inr _ \<Rightarrow> (Inr saved, d2))"
      by (simp add: update_def Let_def a_def [symmetric])
    then have d': "d' = d2" by (cases r2) simp_all
    from u have res: "r = Inr saved \<or> (\<exists>e. r = Inl e)" by (cases r2) simp_all
    have rows: "cat_rows d' =
            (if cat_id inst \<in> set (map cat_id (cat_rows d))
             then map (\<lambda>row. if cat_id row = cat_id inst then saved else row) (cat_rows d)
             else cat_rows d @ [saved])"
      using d' f(1) rows1 by simp
    have ex: "executed d' = executed d
        @ (if cat_id inst \<in> set (map cat_id (cat_rows d))
           then UpdateCat (cat_id inst) else InsertCat (cat_id inst))
        # (DeleteAchievementCat (cat_id inst) # rest2)"
      using d' f(2) ex1 by simp
    have la: "list_all (\<lambda>s. \<not> writes_cat s) (DeleteAchievementCat (cat_id inst) # rest2)"
      using f(3) by simp
    show ?thesis
      unfolding Some option.case
      apply (intro conjI exI [of _ "DeleteAchievementCat (cat_id inst) # rest2"])
      using rows ex la res by simp_all
  qed
  then show ?thesis unfolding if_P [OF True] .
qed

text \<open>
  C4. Let \<open>saved\<close> be the instance with each of name, color, birth year and image taken
  from the input when the input has it and left as it was otherwise (a new image being
  stored under \<open>cats/images/\<close>), and with the key and the owner it had. If its birth
  year passes the check, \<open>update\<close> first writes \<open>saved\<close> to the cat table, as the first
  statement it executes; everything it executes after that leaves the cat table alone,
  and that is nothing when the input has no achievements, and starts with the clearing
  of the relation when it has. If the birth year does not pass, \<open>update\<close> raises and
  the store, the relation with it, is as before.
\<close>

theorem update_saves_before_relation:
  fixes d :: db and inst :: cat and vd :: validated_data
  defines "saved \<equiv>
     \<lparr>cat_id = cat_id inst,
      cat_name = (case vd_name vd of None \<Rightarrow> cat_name inst | Some v \<Rightarrow> v),
      cat_color = (case vd_color vd of None \<Rightarrow> cat_color inst | Some v \<Rightarrow> v),
      cat_birth_year = (case vd_birth_year vd of None \<Rightarrow> cat_birth_year inst | Some v \<Rightarrow> v),
      cat_owner = cat_owner inst,
      cat_image = (case vd_image vd of
                     None \<Rightarrow> (case cat_image inst of
                                Some (Upload f) \<Rightarrow> Some (Stored ''cats/images/'' f)
                              | i \<Rightarrow> i)
                   | Some None \<Rightarrow> None
                   | Some (Some f) \<Rightarrow> Some (Stored ''cats/images/'' f))\<rparr>"
  assumes "update d inst vd = (r, d')"
  shows "if 1900 < cat_birth_year saved \<and> cat_birth_year saved < 2100
     then cat_rows d' =
            (if cat_id inst \<in> set (map cat_id (cat_rows d))
             then map (\<lambda>row. if cat_id row = cat_id inst then saved else row) (cat_rows d)
             else cat_rows d @ [saved])
        \<and> (\<exists>rest. executed d' = executed d
                 @ (if cat_id inst \<in> set (map cat_id (cat_rows d))
                    then UpdateCat (cat_id inst) else InsertCat (cat_id inst)) # rest
               \<and> list_all (\<lambda>s. \<not> writes_cat s) rest
               \<and> (case vd_achievements vd of
                    None \<Rightarrow> rest = []
                  | Some l \<Rightarrow> rest \<noteq> [] \<and> hd rest = DeleteAchievementCat (cat_id inst)))
        \<and> (case vd_achievements vd of
              None \<Rightarrow> r = Inr saved
            | Some l \<Rightarrow> r = Inr saved \<or> (\<exists>e. r = Inl e))
     else d' = d
        \<and> r = Inl (if - (2 ^ 63) \<le> cat_birth_year saved \<and> cat_birth_year saved < 2 ^ 63
                   then IntegrityError BirthYearReasonable else OverflowError)"
proof -
  have s: "(assign_fields inst vd)\<lparr>cat_image := pre_save (cat_image (assign_fields inst vd))\<rparr>
      = saved"
    unfolding saved_def by (rule saved_instance)
  have b: "cat_birth_year (assign_fields inst vd) = cat_birth_year saved"
    by (simp add: saved_def assign_fields_def)
  from update_order [OF assms(2)] show ?thesis unfolding s b .
qed

lemma update_example:
  "update example_store example_cat
      \<lparr>vd_name = Some ''Tim'', vd_color = None, vd_birth_year = None, vd_image = None,
       vd_owner = None, vd_achievements = Some [descriptor ''Hunter'']\<rparr>
    = (Inr (example_cat\<lparr>cat_name := ''Tim''\<rparr>),
       \<lparr>cat_rows = [example_cat\<lparr>cat_name := ''Tim''\<rparr>],
        achievement_rows = [\<lparr>ach_id = 1, ach_name = ''Climber''\<rparr>,
                            \<lparr>ach_id = 2, ach_name = ''Hunter''\<rparr>],
        achievementcat_rows = [\<lparr>ac_id = 2, ac_achievement = 2, ac_cat = 1\<rparr>],
        cat_seq = 1, achievement_seq = 2, achievementcat_seq = 2,
        executed = [InsertCat 1, InsertAchievement 1, InsertAchievementCat 1 1,
                    UpdateCat 1, DeleteAchievementCat 1, InsertAchievement 2,
                    InsertAchievementCat 2 1]\<rparr>)"
  by (simp add: evaluation)

theorem update_saves_before_relation_witness:
  "update example_store example_cat
      \<lparr>vd_name = Some ''Tim'', vd_color = None, vd_birth_year = None, vd_image = None,
       vd_owner = None, vd_achievements = Some [descriptor ''Hunter'']\<rparr>
    = (Inr (example_cat\<lparr>cat_name := ''Tim''\<rparr>),
       \<lparr>cat_rows = [example_cat\<lparr>cat_name := ''Tim''\<rparr>],
        achievement_rows = [\<lparr>ach_id = 1, ach_name = ''Climber''\<rparr>,
                            \<lparr>ach_id = 2, ach_name = ''Hunter''\<rparr>],
        achievementcat_rows = [\<lparr>ac_id = 2, ac_achievement = 2, ac_cat = 1\<rparr>],
        cat_seq = 1, achievement_seq = 2, achievementcat_seq = 2,
        executed = [InsertCat 1, InsertAchievement 1, InsertAchievementCat 1 1,
                    UpdateCat 1, DeleteAchievementCat 1, InsertAchievement 2,
                    InsertAchievementCat 2 1]\<rparr>)
   \<and> cat_rows (snd (update example_store example_cat
      \<lparr>vd_name = Some ''Tim'', vd_color = None, vd_birth_year = None, vd_image = None,
       vd_owner = None, vd_achievements = Some [descriptor ''Hunter'']\<rparr>))
    = [\<lparr>cat_id = 1, cat_name = ''Tim'', cat_color = ''white'', cat_birth_year = 2015,
        cat_owner = 1, cat_image = None\<rparr>]"
proof -
  note t = update_saves_before_relation [OF update_example]
  have "cat_rows (snd (update example_store example_cat
      \<lparr>vd_name = Some ''Tim'', vd_color = None, vd_birth_year = None, vd_image = None,
       vd_owner = None, vd_achievements = Some [descriptor ''Hunter'']\<rparr>))
    = [example_cat\<lparr>cat_name := ''Tim''\<rparr>]"
    unfolding update_example using t by simp
  then have "cat_rows (snd (update example_store example_cat
      \<lparr>vd_name = Some ''Tim'', vd_color = None, vd_birth_year = None, vd_image = None,
       vd_owner = None, vd_achievements = Some [descriptor ''Hunter'']\<rparr>))
    = [\<lparr>cat_id = 1, cat_name = ''Tim'', cat_color = ''white'', cat_birth_year = 2015,
        cat_owner = 1, cat_image = None\<rparr>]"
    by (simp add: example_cat_def)
  with update_example show ?thesis by (intro conjI)
qed

subsection \<open>The image field\<close>




subsection \<open>Creating with achievements\<close>





subsection \<open>Updating the achievements\<close>

lemma achievements_all_same:
  "achievement_rows d' = achievement_rows d \<Longrightarrow>
   filter (\<lambda>j. ac_cat j = cat_id c') (achievementcat_rows d')
     = filter (\<lambda>j. ac_cat j = cat_id c) (achievementcat_rows d) \<Longrightarrow>
   achievements_all d' c' = achievements_all d c"
  by (simp add: achievements_all_def)



lemma update_example_clear:
  "update example_store example_cat
      \<lparr>vd_name = None, vd_color = None, vd_birth_year = None, vd_image = None,
       vd_owner = None, vd_achievements = Some []\<rparr>
    = (Inr example_cat,
       \<lparr>cat_rows = [example_cat],
        achievement_rows = [\<lparr>ach_id = 1, ach_name = ''Climber''\<rparr>],
        achievementcat_rows = [],
        cat_seq = 1, achievement_seq = 1, achievementcat_seq = 1,
        executed = [InsertCat 1, InsertAchievement 1, InsertAchievementCat 1 1,
                    UpdateCat 1, DeleteAchievementCat 1]\<rparr>)"
  by (simp add: evaluation)




subsection \<open>Creating two cats with the same achievement\<close>

lemma create_one_name:
  assumes "consistent d"
    and "vd_owner vd = Some u" "vd_birth_year vd = Some y" "1900 < y" "y < 2100"
    and "vd_achievements vd = Some [descriptor n]"
  shows "\<exists>c d' a new newj.
      create d vd = (Inr c, d')
      \<and> cat_id c = Suc (cat_seq d)
      \<and> cat_rows d' = cat_rows d @ [c]
      \<and> achievement_rows d' = achievement_rows d @ new
      \<and> map ach_name new = filter (\<lambda>n. n \<notin> set (map ach_name (achievement_rows d))) [n]
      \<and> achievementcat_rows d' = achievementcat_rows d @ newj
      \<and> map (\<lambda>j. (ac_achievement j, ac_cat j)) newj = [(ach_id a, cat_id c)]
      \<and> ach_name a = n
      \<and> a \<in> set (achievement_rows d')
      \<and> achievements_all d' c = [a]
      \<and> cat_seq d' = Suc (cat_seq d)
      \<and> consistent d'"
proof -
  from assms(6) have l: "(case vd_achievements vd of None \<Rightarrow> [] | Some l \<Rightarrow> l) = map descriptor [n]"
    by simp
  have dn: "distinct [n]" by simp
  let ?c = "\<lparr>cat_id = Suc (cat_seq d),
            cat_name = (case vd_name vd of None \<Rightarrow> [] | Some n \<Rightarrow> n),
            cat_color = (case vd_color vd of None \<Rightarrow> [] | Some n \<Rightarrow> n),
            cat_birth_year = the (vd_birth_year vd),
            cat_owner = the (vd_owner vd),
            cat_image = (case vd_image vd of
                           None \<Rightarrow> None
                         | Some None \<Rightarrow> None
                         | Some (Some f) \<Rightarrow> Some (Stored ''cats/images/'' f))\<rparr>"
  from create_with_names [OF assms(1-5) dn l]
  obtain d' new newj as where r:
    "create d vd = (Inr ?c, d')"
    "cat_rows d' = cat_rows d @ [?c]"
    "achievement_rows d' = achievement_rows d @ new"
    "map ach_name new = filter (\<lambda>n. n \<notin> set (map ach_name (achievement_rows d))) [n]"
    "achievementcat_rows d' = achievementcat_rows d @ newj"
    "cat_seq d' = Suc (cat_seq d)"
    "consistent d'"
    and link: "map (\<lambda>j. (ac_achievement j, ac_cat j)) newj = map (\<lambda>a. (ach_id a, cat_id ?c)) as"
    and as: "map ach_name as = [n]" "set as \<subseteq> set (achievement_rows d')"
    and al: "achievements_all d' ?c = sort_key ach_name as"
    by (elim exE conjE) (rule that)
  from as(1) obtain a where a: "as = [a]" by auto
  have r1: "cat_id ?c = Suc (cat_seq d)" by simp
  from link a have r2: "map (\<lambda>j. (ac_achievement j, ac_cat j)) newj = [(ach_id a, cat_id ?c)]"
    by simp
  from as a have r3: "ach_name a = n" "a \<in> set (achievement_rows d')" by simp_all
  from al a have r4: "achievements_all d' ?c = [a]" by simp
  show ?thesis
    apply (rule exI [of _ ?c], rule exI [of _ d'], rule exI [of _ a], rule exI [of _ new],
        rule exI [of _ newj], intro conjI)
    by (rule r r1 r2 r3 r4)+
qed

text \<open>
  C8. In a consistent store, creating a cat with the one achievement descriptor
  \<open>Climber\<close> (owner given, birth year between 1900 and 2100) and reading it back gives an
  achievements list of exactly one entry, named \<open>Climber\<close>. Creating a second cat with
  the same descriptor then leaves the achievement table as it was, with exactly one row
  named \<open>Climber\<close>: both cats read back that same achievement.
\<close>

theorem create_reuses_achievement:
  assumes "consistent d"
    and "vd_owner vd1 = Some u1" "vd_birth_year vd1 = Some y1" "1900 < y1" "y1 < 2100"
    and "vd_achievements vd1 = Some [descriptor ''Climber'']"
    and "vd_owner vd2 = Some u2" "vd_birth_year vd2 = Some y2" "1900 < y2" "y2 < 2100"
    and "vd_achievements vd2 = Some [descriptor ''Climber'']"
  shows "\<exists>c1 d1 c2 d2 a.
      create d vd1 = (Inr c1, d1)
      \<and> repr_achievements (CatSerializer_to_representation now d1 c1)
          = [\<lparr>r_id = ach_id a, r_achievement_name = ''Climber''\<rparr>]
      \<and> create d1 vd2 = (Inr c2, d2)
      \<and> cat_id c1 = Suc (cat_seq d) \<and> cat_id c2 = Suc (Suc (cat_seq d))
      \<and> cat_rows d2 = cat_rows d @ [c1, c2]
      \<and> achievement_rows d2 = achievement_rows d1
      \<and> filter (\<lambda>x. ach_name x = ''Climber'') (achievement_rows d2) = [a]
      \<and> repr_achievements (CatSerializer_to_representation now d2 c2)
          = [\<lparr>r_id = ach_id a, r_achievement_name = ''Climber''\<rparr>]
      \<and> repr_achievements (CatSerializer_to_representation now d2 c1)
          = [\<lparr>r_id = ach_id a, r_achievement_name = ''Climber''\<rparr>]"
proof -
  from create_one_name [OF assms(1-6)] obtain c1 d1 a where
    f: "create d vd1 = (Inr c1, d1)" "cat_id c1 = Suc (cat_seq d)"
      "cat_rows d1 = cat_rows d @ [c1]"
      "ach_name a = ''Climber''" "a \<in> set (achievement_rows d1)"
      "achievements_all d1 c1 = [a]" "cat_seq d1 = Suc (cat_seq d)" "consistent d1"
    by blast
  from create_one_name [OF f(8) assms(7-11)] obtain c2 d2 a2 new2 newj2 where
    g: "create d1 vd2 = (Inr c2, d2)" "cat_id c2 = Suc (cat_seq d1)"
      "cat_rows d2 = cat_rows d1 @ [c2]"
      "achievement_rows d2 = achievement_rows d1 @ new2"
      "map ach_name new2 = filter (\<lambda>n. n \<notin> set (map ach_name (achievement_rows d1))) [''Climber'']"
      "achievementcat_rows d2 = achievementcat_rows d1 @ newj2"
      "map (\<lambda>j. (ac_achievement j, ac_cat j)) newj2 = [(ach_id a2, cat_id c2)]"
      "ach_name a2 = ''Climber''" "a2 \<in> set (achievement_rows d2)"
      "achievements_all d2 c2 = [a2]"
    by (elim exE conjE) (rule that)
  from f(4,5) have "''Climber'' \<in> set (map ach_name (achievement_rows d1))" by force
  with g(5) have "new2 = []" by simp
  with g(4) have same: "achievement_rows d2 = achievement_rows d1" by simp
  from f(8) have dn: "distinct (map ach_name (achievement_rows d1))"
    by (simp add: consistent_def)
  from filter_distinct_key [OF dn f(5)] f(4)
  have one: "filter (\<lambda>x. ach_name x = ''Climber'') (achievement_rows d1) = [a]" by simp
  from g(8,9) same have "a2 \<in> set (filter (\<lambda>x. ach_name x = ''Climber'') (achievement_rows d1))"
    by simp
  with one have a2: "a2 = a" by simp
  from g(7) have "\<forall>j \<in> set newj2. ac_cat j = cat_id c2"
    by (cases newj2) auto
  with g(2) f(2,7) have "filter (\<lambda>j. ac_cat j = cat_id c1) newj2 = []"
    by (simp add: filter_empty_conv)
  with g(6) have "filter (\<lambda>j. ac_cat j = cat_id c1) (achievementcat_rows d2)
      = filter (\<lambda>j. ac_cat j = cat_id c1) (achievementcat_rows d1)" by simp
  from achievements_all_same [OF same this] f(6)
  have first: "achievements_all d2 c1 = [a]" by simp
  have r1: "repr_achievements (CatSerializer_to_representation now d1 c1)
          = [\<lparr>r_id = ach_id a, r_achievement_name = ''Climber''\<rparr>]"
    using f(4,6)
    by (simp add: CatSerializer_to_representation_def AchievementSerializer_to_representation_def)
  have r2: "repr_achievements (CatSerializer_to_representation now d2 c2)
          = [\<lparr>r_id = ach_id a, r_achievement_name = ''Climber''\<rparr>]"
    using f(4) g(10) a2
    by (simp add: CatSerializer_to_representation_def AchievementSerializer_to_representation_def)
  have r3: "repr_achievements (CatSerializer_to_representation now d2 c1)
          = [\<lparr>r_id = ach_id a, r_achievement_name = ''Climber''\<rparr>]"
    using f(4) first
    by (simp add: CatSerializer_to_representation_def AchievementSerializer_to_representation_def)
  from g(2) f(7) have r4: "cat_id c2 = Suc (Suc (cat_seq d))" by simp
  from g(3) f(3) have r5: "cat_rows d2 = cat_rows d @ [c1, c2]" by simp
  from one same have r6: "filter (\<lambda>x. ach_name x = ''Climber'') (achievement_rows d2) = [a]"
    by simp
  show ?thesis
    apply (rule exI [of _ c1], rule exI [of _ d1], rule exI [of _ c2], rule exI [of _ d2],
        rule exI [of _ a], intro conjI)
    by (rule f(1) f(2) g(1) same r1 r2 r3 r4 r5 r6)+
qed

lemma create_example_second:
  "create example_store (example_data\<lparr>vd_name := Some ''Kit'',
        vd_achievements := Some [descriptor ''Climber'']\<rparr>)
     = (Inr \<lparr>cat_id = 2, cat_name = ''Kit'', cat_color = ''white'', cat_birth_year = 2015,
             cat_owner = 1, cat_image = None\<rparr>,
        \<lparr>cat_rows = [example_cat,
                     \<lparr>cat_id = 2, cat_name = ''Kit'', cat_color = ''white'',
                      cat_birth_year = 2015, cat_owner = 1, cat_image = None\<rparr>],
         achievement_rows = [\<lparr>ach_id = 1, ach_name = ''Climber''\<rparr>],
         achievementcat_rows = [\<lparr>ac_id = 1, ac_achievement = 1, ac_cat = 1\<rparr>,
                                \<lparr>ac_id = 2, ac_achievement = 1, ac_cat = 2\<rparr>],
         cat_seq = 2, achievement_seq = 1, achievementcat_seq = 2,
         executed = [InsertCat 1, InsertAchievement 1, InsertAchievementCat 1 1,
                     InsertCat 2, InsertAchievementCat 1 2]\<rparr>)"
  by (simp add: evaluation)

lemma read_example:
  "repr_achievements (CatSerializer_to_representation now example_store example_cat)
     = [\<lparr>r_id = 1, r_achievement_name = ''Climber''\<rparr>]"
  by (simp add: CatSerializer_to_representation_def AchievementSerializer_to_representation_def
      achievements_all_def example_store_def example_cat_def)

theorem create_reuses_achievement_witness:
  "consistent empty_db
   \<and> create empty_db (example_data\<lparr>vd_achievements := Some [descriptor ''Climber'']\<rparr>)
       = (Inr example_cat, example_store)
   \<and> repr_achievements (CatSerializer_to_representation 2024 example_store example_cat)
       = [\<lparr>r_id = 1, r_achievement_name = ''Climber''\<rparr>]
   \<and> achievement_rows (snd (create example_store (example_data\<lparr>vd_name := Some ''Kit'',
        vd_achievements := Some [descriptor ''Climber'']\<rparr>)))
       = [\<lparr>ach_id = 1, ach_name = ''Climber''\<rparr>]
   \<and> repr_achievements (CatSerializer_to_representation 2024
        (snd (create example_store (example_data\<lparr>vd_name := Some ''Kit'',
           vd_achievements := Some [descriptor ''Climber'']\<rparr>)))
        \<lparr>cat_id = 2, cat_name = ''Kit'', cat_color = ''white'', cat_birth_year = 2015,
             cat_owner = 1, cat_image = None\<rparr>)
       = [\<lparr>r_id = 1, r_achievement_name = ''Climber''\<rparr>]"
proof -
  let ?vd1 = "example_data\<lparr>vd_achievements := Some [descriptor ''Climber'']\<rparr>"
  let ?vd2 = "example_data\<lparr>vd_name := Some ''Kit'',
        vd_achievements := Some [descriptor ''Climber'']\<rparr>"
  have h1: "vd_owner ?vd1 = Some 1" "vd_birth_year ?vd1 = Some 2015" "1900 < (2015::int)"
    "(2015::int) < 2100" "vd_achievements ?vd1 = Some [descriptor ''Climber'']"
    by (simp_all add: example_data_def)
  have h2: "vd_owner ?vd2 = Some 1" "vd_birth_year ?vd2 = Some 2015" "1900 < (2015::int)"
    "(2015::int) < 2100" "vd_achievements ?vd2 = Some [descriptor ''Climber'']"
    by (simp_all add: example_data_def)
  from create_reuses_achievement [OF consistent_empty h1 h2, of 2024]
  obtain c1 d1 c2 d2 and a :: achievement where
    t: "create empty_db ?vd1 = (Inr c1, d1)"
      "repr_achievements (CatSerializer_to_representation 2024 d1 c1)
          = [\<lparr>r_id = ach_id a, r_achievement_name = ''Climber''\<rparr>]"
      "create d1 ?vd2 = (Inr c2, d2)"
      "repr_achievements (CatSerializer_to_representation 2024 d2 c2)
          = [\<lparr>r_id = ach_id a, r_achievement_name = ''Climber''\<rparr>]"
    by (elim exE conjE) (rule that; assumption)
  from t(1) create_example have e1: "c1 = example_cat" "d1 = example_store" by simp_all
  from t(2) e1 read_example [of 2024] have a: "ach_id a = 1" by simp
  from t(3) e1 have q: "create example_store ?vd2 = (Inr c2, d2)" by simp
  have e2: "d2 = snd (create example_store ?vd2)" unfolding q by simp
  from q have e3: "c2 = \<lparr>cat_id = 2, cat_name = ''Kit'', cat_color = ''white'',
      cat_birth_year = 2015, cat_owner = 1, cat_image = None\<rparr>"
    unfolding create_example_second by simp
  from t(4) a have r: "repr_achievements (CatSerializer_to_representation 2024
        (snd (create example_store ?vd2))
        \<lparr>cat_id = 2, cat_name = ''Kit'', cat_color = ''white'', cat_birth_year = 2015,
             cat_owner = 1, cat_image = None\<rparr>)
       = [\<lparr>r_id = 1, r_achievement_name = ''Climber''\<rparr>]"
    unfolding e2 [symmetric] e3 [symmetric] by simp
  have s: "achievement_rows (snd (create example_store ?vd2))
       = [\<lparr>ach_id = 1, ach_name = ''Climber''\<rparr>]"
    unfolding create_example_second by simp
  from consistent_empty create_example read_example [of 2024] s r show ?thesis
    by (intro conjI)
qed

subsection \<open>The color field\<close>

text \<open>
  C1. The claim: given a hex code or a color name, the write direction returns the
  canonical name, and it fails exactly on a hex code without a name. The code hands
  every input to the hex lookup, so a color name is refused, whatever the table of
  names holds: here the name \<open>white\<close>.
\<close>

theorem Hex2NameColor_refuses_color_name:
  "Hex2NameColor_to_internal_value names ''white'' = Inl (ValidationError InvalidColor)"
  by (simp add: Hex2NameColor_to_internal_value_def hex_to_name_def normalize_hex_def
      strip_final_newline_def)

subsection \<open>The age and the read-only fields\<close>

lemma restrict_read_only:
  "(payload(''id'' := x, ''owner'' := y, ''age'' := z)) |` set writable_fields
     = payload |` set writable_fields"
  by (rule ext)
     (simp add: restrict_map_def writable_fields_def Meta_fields_def Meta_read_only_fields_def)

lemma run_validation_read_only:
  "run_validation env partial log (payload(''id'' := x, ''owner'' := y, ''age'' := z))
     = run_validation env partial log payload"
  unfolding run_validation_def restrict_read_only ..

text \<open>
  C9. The age that is read is the current year minus the birth year. Whatever a write
  payload holds under \<open>id\<close>, \<open>owner\<close> and \<open>age\<close> (a value, or nothing), validating and
  saving it gives the same result, the same store and the same log.
\<close>

theorem age_and_read_only_fields:
  "repr_age (CatSerializer_to_representation now_year d c) = now_year - cat_birth_year c
   \<and> get_age now_year c = now_year - cat_birth_year c
   \<and> is_valid_and_save env partial log d inst owner
         (payload(''id'' := x, ''owner'' := y, ''age'' := z))
       = is_valid_and_save env partial log d inst owner payload"
  by (simp add: CatSerializer_to_representation_def get_age_def is_valid_and_save_def
      run_validation_read_only)

theorem age_and_read_only_fields_witness:
  "repr_age (CatSerializer_to_representation 2024 empty_db
        \<lparr>cat_id = 1, cat_name = ''Tom'', cat_color = ''white'', cat_birth_year = 2015,
         cat_owner = 1, cat_image = None\<rparr>) = 9
   \<and> is_valid_and_save example_collaborators False [] empty_db None (Some 1)
         (example_payload(''id'' := Some (PInt 9), ''owner'' := Some (PInt 5),
            ''age'' := Some (PInt 3)))
       = is_valid_and_save example_collaborators False [] empty_db None (Some 1) example_payload"
  using age_and_read_only_fields [of 2024 empty_db
      "\<lparr>cat_id = 1, cat_name = ''Tom'', cat_color = ''white'', cat_birth_year = 2015,
        cat_owner = 1, cat_image = None\<rparr>"
      example_collaborators False "[]" None "Some 1" example_payload
      "Some (PInt 9)" "Some (PInt 5)" "Some (PInt 3)"]
  by simp

end
